theory Spec2Isabelle
  imports
    Complex_Main
    "HOL-Library.Char_ord"
    "HOL-Library.List_Lexorder"
    "HOL-Library.Product_Lexorder"
    "HOL-Library.Multiset"
begin

section \<open>Europe Development Visualizer: the data pipeline of \<^verbatim>\<open>app.py\<close>\<close>

text \<open>
  The theory embeds the functions \<^verbatim>\<open>fetch_worldbank_page\<close>, \<^verbatim>\<open>get_worldbank_data\<close>,
  \<^verbatim>\<open>format_value\<close>, \<^verbatim>\<open>update_kpis\<close> and \<^verbatim>\<open>update_bar_chart\<close> of \<^verbatim>\<open>src/app.py\<close>.

  Conventions of the embedding.
  \<^item> A pandas frame is the list of its rows, in frame order, together with its column
    names. Index labels are unique in every frame of the program, so a label stands for
    its row.
  \<^item> A float64 is a value of type \<open>fl\<close>: NaN (pandas' missing value), the two infinities,
    or a finite number. Arithmetic on finite numbers is exact: rounding and overflow of
    binary64 are not part of the model, and neither is the sign of zero.
  \<^item> \<^verbatim>\<open>sort_values\<close> is the stable insertion sort \<open>sort_key\<close>. (For a single column
    pandas uses an unstable quicksort; the order it gives to rows of equal key is not
    determined by the source.)
  \<^item> An exception is a value \<open>Inl e\<close> of a sum type.
\<close>

subsection \<open>Values\<close>

datatype py_error =
    RequestError | AttributeError | ConversionError | KeyError | TypeError
  | IndexError | ZeroDivisionError

datatype fl = NaN | NInf | Fin real | PInf

text \<open>\<^verbatim>\<open>pd.isna\<close> and \<^verbatim>\<open>pd.notna\<close> on a float: only NaN is missing, an infinity is not.\<close>

definition isna :: "fl \<Rightarrow> bool" where
  "isna v = (v = NaN)"

definition notna :: "fl \<Rightarrow> bool" where
  "notna v = (v \<noteq> NaN)"

subsection \<open>The API's responses\<close>

text \<open>
  One record of a page, with the four fields the program reads (line 84). \<open>rvalue\<close> is
  the JSON field \<^verbatim>\<open>value\<close>: a number, or \<^verbatim>\<open>null\<close>, which pandas holds as NaN. \<open>date\<close> is
  the year as the string the API sends. \<open>country\<close> is the name the API provides.
\<close>

record raw_record =
  countryiso3code :: string
  country :: string
  date :: string
  rvalue :: fl

text \<open>
  The \<^verbatim>\<open>pages\<close> entry of the metadata, by what \<^verbatim>\<open>int(first_page[0].get('pages', 1))\<close>
  does with it: the key is absent; the value converts to the integer \<open>n\<close>; or the
  conversion raises (\<^verbatim>\<open>null\<close>, a non-numeric string, a list, ...).
\<close>

datatype pages_field = PagesAbsent | PagesInt int | PagesMalformed

text \<open>The first element of a response: a JSON object, or a value without \<^verbatim>\<open>.get\<close>.\<close>

datatype meta = MetaDict pages_field | MetaNotDict

text \<open>
  A parsed response body, by the shapes the program distinguishes: a JSON object with
  \<open>n\<close> keys; a value that has no length (\<^verbatim>\<open>null\<close>, a number); a list of fewer than two
  elements; a list whose first element is the metadata and whose second element is the
  list of records (the empty list also stands for a falsy second element).
\<close>

datatype response = Obj nat | Scalar | ShortList | Page meta "raw_record list"

subsection \<open>The memoized page fetcher (lines 52-58)\<close>

text \<open>
  The arguments of one call: the joined country codes, the indicator code, the date
  range (the pair stands for the string \<^verbatim>\<open>f"{start_year}:{end_year}"\<close>) and the page.
  \<^verbatim>\<open>per_page\<close> always has its default.
\<close>

type_synonym key = "string \<times> string \<times> (int \<times> int) \<times> int"

text \<open>
  \<^verbatim>\<open>lru_cache\<close> hands out the very object it stored, and line 78 mutates such an object,
  so responses live in a store: \<open>heap\<close> holds the objects ever returned by the network,
  an address is an index into it, and \<open>cache\<close> maps keys to addresses, the most recently
  used first, at most 64 of them.
\<close>

record world =
  cache :: "(key \<times> nat) list"
  heap :: "response list"

definition fresh :: world where
  "fresh = \<lparr>cache = [], heap = []\<rparr>"

text \<open>
  \<open>net\<close> is the request of lines 55-58 (\<^verbatim>\<open>requests.get\<close>, \<^verbatim>\<open>raise_for_status\<close>,
  \<^verbatim>\<open>r.json()\<close>): it raises or returns the parsed body. An exception is not cached.
\<close>

definition fetch_worldbank_page ::
  "(key \<Rightarrow> py_error + response) \<Rightarrow> key \<Rightarrow> world \<Rightarrow> (py_error + nat) \<times> world" where
  "fetch_worldbank_page net k w =
     (case map_of (cache w) k of
        Some a \<Rightarrow> (Inr a, w\<lparr>cache := (k, a) # filter (\<lambda>e. fst e \<noteq> k) (cache w)\<rparr>)
      | None \<Rightarrow>
          (case net k of
             Inl e \<Rightarrow> (Inl e, w)
           | Inr r \<Rightarrow>
               (Inr (length (heap w)),
                w\<lparr>cache := take 64 ((k, length (heap w)) # cache w),
                  heap := heap w @ [r]\<rparr>)))"

subsection \<open>The dataset (lines 60-103)\<close>

record canon_row =
  ISO3Code :: string
  Country :: string
  Year :: int
  Value :: fl
  Indicator :: string

record dataframe =
  columns :: "string list"
  rows :: "canon_row list"

definition canonical_columns :: "string list" where
  "canonical_columns = [''ISO3Code'', ''Country'', ''Year'', ''Value'', ''Indicator'']"

text \<open>\<^verbatim>\<open>";".join(countries_dict.values())\<close>\<close>

fun join_semicolon :: "string list \<Rightarrow> string" where
  "join_semicolon [] = []"
| "join_semicolon [s] = s"
| "join_semicolon (s # t # ss) = s @ '';'' @ join_semicolon (t # ss)"

text \<open>
  \<^verbatim>\<open>{v: k for k, v in countries_dict.items()}\<close>: a dict is the list of its items in
  insertion order; for a code that occurs twice the later name wins.
\<close>

definition reverse_country_map :: "(string \<times> string) list \<Rightarrow> string \<Rightarrow> string option" where
  "reverse_country_map countries_dict = map_of (rev (map (\<lambda>(k, v). (v, k)) countries_dict))"

text \<open>\<^verbatim>\<open>int(first_page[0].get('pages', 1))\<close>, line 72.\<close>

fun total_pages_of :: "meta \<Rightarrow> py_error + int" where
  "total_pages_of MetaNotDict = Inl AttributeError"
| "total_pages_of (MetaDict PagesAbsent) = Inr 1"
| "total_pages_of (MetaDict (PagesInt n)) = Inr n"
| "total_pages_of (MetaDict PagesMalformed) = Inl ConversionError"

text \<open>
  \<^verbatim>\<open>all_rows.extend(json_data[1])\<close>, line 78. \<^verbatim>\<open>all_rows\<close> is the second element of the
  object at address \<open>a\<close>, and the extension happens in that object.
\<close>

definition extend :: "nat \<Rightarrow> raw_record list \<Rightarrow> world \<Rightarrow> world" where
  "extend a new w =
     w\<lparr>heap := (heap w)[a := (case heap w ! a of
                                Page m rs \<Rightarrow> Page m (rs @ new)
                              | r \<Rightarrow> r)]\<rparr>"

text \<open>
  The loop of lines 75-78 over the pages \<open>ps\<close>. On a body that is not a list,
  \<^verbatim>\<open>len(json_data)\<close> raises for a value without length, and \<^verbatim>\<open>json_data[1]\<close> raises
  for an object, which is reached when the object has more than one key.
\<close>

fun fetch_rest ::
  "(key \<Rightarrow> py_error + response) \<Rightarrow> (int \<Rightarrow> key) \<Rightarrow> nat \<Rightarrow> int list \<Rightarrow> world
     \<Rightarrow> (py_error + unit) \<times> world" where
  "fetch_rest net mk a [] w = (Inr (), w)"
| "fetch_rest net mk a (p # ps) w =
     (case fetch_worldbank_page net (mk p) w of
        (Inl e, w') \<Rightarrow> (Inl e, w')
      | (Inr b, w') \<Rightarrow>
          (case heap w' ! b of
             Obj n \<Rightarrow> if 1 < n then (Inl KeyError, w') else fetch_rest net mk a ps w'
           | Scalar \<Rightarrow> (Inl TypeError, w')
           | ShortList \<Rightarrow> fetch_rest net mk a ps w'
           | Page m rs \<Rightarrow>
               if rs \<noteq> [] then fetch_rest net mk a ps (extend a rs w')
               else fetch_rest net mk a ps w'))"

text \<open>
  Lines 84-95 on one record. \<open>to_numeric\<close> is \<^verbatim>\<open>pd.to_numeric(..., errors='coerce')\<close> on a
  date string: \<open>None\<close> is the NaN of a string that is not a number. It is a parameter,
  so every theorem holds whatever pandas accepts as a number. On \<^verbatim>\<open>Value\<close>, already a
  float, the conversion changes nothing. \<^verbatim>\<open>dropna\<close> removes the record when either
  is missing.
\<close>

definition clean_record ::
  "(string \<Rightarrow> int option) \<Rightarrow> (string \<times> string) list \<Rightarrow> string \<Rightarrow> raw_record
     \<Rightarrow> canon_row option" where
  "clean_record to_numeric countries_dict indicator_name r =
     (case to_numeric (date r) of
        None \<Rightarrow> None
      | Some y \<Rightarrow>
          if isna (rvalue r) then None
          else Some \<lparr>ISO3Code = countryiso3code r,
                     Country = (case reverse_country_map countries_dict (countryiso3code r) of
                                  Some name \<Rightarrow> name
                                | None \<Rightarrow> country r),
                     Year = y,
                     Value = rvalue r,
                     Indicator = indicator_name\<rparr>)"

definition df_clean_of ::
  "(string \<Rightarrow> int option) \<Rightarrow> (string \<times> string) list \<Rightarrow> string \<Rightarrow> raw_record list
     \<Rightarrow> dataframe" where
  "df_clean_of to_numeric countries_dict indicator_name all_rows =
     \<lparr>columns = canonical_columns,
      rows = List.map_filter (clean_record to_numeric countries_dict indicator_name) all_rows\<rparr>"

text \<open>
  The body of the \<^verbatim>\<open>try\<close> for one indicator (lines 68-96). \<open>Inl e\<close>: it raised \<open>e\<close>.
  \<open>Inr None\<close>: it reached a \<^verbatim>\<open>continue\<close>. \<open>Inr (Some df)\<close>: it reached line 96, which
  appends \<open>df\<close>.
\<close>

definition indicator_body ::
  "(key \<Rightarrow> py_error + response) \<Rightarrow> (string \<Rightarrow> int option) \<Rightarrow> (string \<times> string) list
     \<Rightarrow> int \<times> int \<Rightarrow> string \<times> string \<Rightarrow> world \<Rightarrow> (py_error + dataframe option) \<times> world" where
  "indicator_body net to_numeric countries_dict date_range ind w =
     (let countries_iso = join_semicolon (map snd countries_dict);
          mk = (\<lambda>p. (countries_iso, snd ind, date_range, p))
      in case fetch_worldbank_page net (mk 1) w of
           (Inl e, w1) \<Rightarrow> (Inl e, w1)
         | (Inr a, w1) \<Rightarrow>
             (case heap w1 ! a of
                Page m rs \<Rightarrow>
                  if rs = [] then (Inr None, w1)
                  else (case total_pages_of m of
                          Inl e \<Rightarrow> (Inl e, w1)
                        | Inr total_pages \<Rightarrow>
                            (case fetch_rest net mk a [2..total_pages] w1 of
                               (Inl e, w2) \<Rightarrow> (Inl e, w2)
                             | (Inr u, w2) \<Rightarrow>
                                 (case heap w2 ! a of
                                    Page m' all_rows \<Rightarrow>
                                      if all_rows = [] then (Inr None, w2)
                                      else (Inr (Some (df_clean_of to_numeric countries_dict
                                                         (fst ind) all_rows)), w2)
                                  | r \<Rightarrow> (Inr None, w2))))
              | r \<Rightarrow> (Inr None, w1)))"

text \<open>The \<^verbatim>\<open>for\<close> loop of line 66 with its \<^verbatim>\<open>except Exception\<close>: \<open>dfs\<close> is the list so far.\<close>

fun indicator_loop ::
  "(key \<Rightarrow> py_error + response) \<Rightarrow> (string \<Rightarrow> int option) \<Rightarrow> (string \<times> string) list
     \<Rightarrow> int \<times> int \<Rightarrow> (string \<times> string) list \<Rightarrow> dataframe list \<Rightarrow> world
     \<Rightarrow> dataframe list \<times> world" where
  "indicator_loop net to_numeric countries_dict date_range [] dfs w = (dfs, w)"
| "indicator_loop net to_numeric countries_dict date_range (ind # inds) dfs w =
     (case indicator_body net to_numeric countries_dict date_range ind w of
        (Inl e, w') \<Rightarrow> indicator_loop net to_numeric countries_dict date_range inds dfs w'
      | (Inr None, w') \<Rightarrow> indicator_loop net to_numeric countries_dict date_range inds dfs w'
      | (Inr (Some df), w') \<Rightarrow>
          indicator_loop net to_numeric countries_dict date_range inds (dfs @ [df]) w')"

text \<open>\<^verbatim>\<open>pd.concat(dfs, ignore_index=True)\<close>: the union of the columns, the rows in order.\<close>

definition pd_concat :: "dataframe list \<Rightarrow> dataframe" where
  "pd_concat dfs = \<lparr>columns = remdups (concat (map columns dfs)),
                    rows = concat (map rows dfs)\<rparr>"

definition sort_values_ICY :: "dataframe \<Rightarrow> dataframe" where
  "sort_values_ICY df = df\<lparr>rows := sort_key (\<lambda>r. (Indicator r, Country r, Year r)) (rows df)\<rparr>"

definition get_worldbank_data ::
  "(key \<Rightarrow> py_error + response) \<Rightarrow> (string \<Rightarrow> int option) \<Rightarrow> (string \<times> string) list
     \<Rightarrow> (string \<times> string) list \<Rightarrow> int \<Rightarrow> int \<Rightarrow> world \<Rightarrow> dataframe \<times> world" where
  "get_worldbank_data net to_numeric countries_dict indicators_dict start_year end_year w =
     (case indicator_loop net to_numeric countries_dict (start_year, end_year)
             indicators_dict [] w of
        (dfs, w') \<Rightarrow>
          if dfs \<noteq> [] then (sort_values_ICY (pd_concat dfs), w')
          else (\<lparr>columns = canonical_columns, rows = []\<rparr>, w'))"

subsection \<open>Float arithmetic\<close>

text \<open>
  The operations of numpy's float64 scalars on the special values. None of them raises:
  numpy answers a division by zero or an invalid power with an infinity or NaN and a
  warning.
\<close>

fun fneg :: "fl \<Rightarrow> fl" where
  "fneg NaN = NaN"
| "fneg NInf = PInf"
| "fneg PInf = NInf"
| "fneg (Fin x) = Fin (- x)"

fun fadd :: "fl \<Rightarrow> fl \<Rightarrow> fl" where
  "fadd (Fin x) (Fin y) = Fin (x + y)"
| "fadd NaN b = NaN"
| "fadd a NaN = NaN"
| "fadd PInf NInf = NaN"
| "fadd NInf PInf = NaN"
| "fadd PInf b = PInf"
| "fadd NInf b = NInf"
| "fadd (Fin x) b = b"

definition fsub :: "fl \<Rightarrow> fl \<Rightarrow> fl" where
  "fsub a b = fadd a (fneg b)"

text \<open>The sign of a value that is not NaN: \<open>-1\<close>, \<open>0\<close> or \<open>1\<close>.\<close>

fun fsgn :: "fl \<Rightarrow> int" where
  "fsgn NaN = 0"
| "fsgn NInf = - 1"
| "fsgn PInf = 1"
| "fsgn (Fin x) = (if x < 0 then - 1 else if x = 0 then 0 else 1)"

definition inf_of_sign :: "int \<Rightarrow> fl" where
  "inf_of_sign s = (if s < 0 then NInf else if s = 0 then NaN else PInf)"

fun fmul :: "fl \<Rightarrow> fl \<Rightarrow> fl" where
  "fmul (Fin x) (Fin y) = Fin (x * y)"
| "fmul NaN b = NaN"
| "fmul a NaN = NaN"
| "fmul a b = inf_of_sign (fsgn a * fsgn b)"

fun fdiv :: "fl \<Rightarrow> fl \<Rightarrow> fl" where
  "fdiv (Fin x) (Fin y) = (if y = 0 then inf_of_sign (fsgn (Fin x)) else Fin (x / y))"
| "fdiv NaN b = NaN"
| "fdiv a NaN = NaN"
| "fdiv (Fin x) b = Fin 0"
| "fdiv a (Fin y) = inf_of_sign (fsgn a * (if y < 0 then - 1 else 1))"
| "fdiv a b = NaN"

text \<open>
  \<open>fpow a e\<close> is \<^verbatim>\<open>a ** e\<close> for a float64 scalar \<open>a\<close> and a finite Python float \<open>e\<close>: a
  negative base with an exponent that is not an integer gives NaN.
\<close>

definition is_integer :: "real \<Rightarrow> bool" where
  "is_integer e = (e = of_int \<lfloor>e\<rfloor>)"

definition is_odd_integer :: "real \<Rightarrow> bool" where
  "is_odd_integer e = (is_integer e \<and> odd \<lfloor>e\<rfloor>)"

fun fpow :: "fl \<Rightarrow> real \<Rightarrow> fl" where
  "fpow NaN e = (if e = 0 then Fin 1 else NaN)"
| "fpow PInf e = (if e = 0 then Fin 1 else if 0 < e then PInf else Fin 0)"
| "fpow NInf e =
     (if e = 0 then Fin 1
      else if 0 < e then (if is_odd_integer e then NInf else PInf)
      else Fin 0)"
| "fpow (Fin x) e =
     (if e = 0 then Fin 1
      else if 0 < x then Fin (x powr e)
      else if x = 0 then (if 0 < e then Fin 0 else PInf)
      else if is_integer e then Fin ((if is_odd_integer e then - 1 else 1) * ((- x) powr e))
      else NaN)"

text \<open>
  Keys that order floats for \<^verbatim>\<open>sort_values\<close>: ascending, and descending
  (\<^verbatim>\<open>ascending=False\<close>). NaN comes last in both (\<^verbatim>\<open>na_position='last'\<close>).
\<close>

fun asc_key :: "fl \<Rightarrow> int \<times> real" where
  "asc_key NInf = (0, 0)"
| "asc_key (Fin x) = (1, x)"
| "asc_key PInf = (2, 0)"
| "asc_key NaN = (3, 0)"

fun desc_key :: "fl \<Rightarrow> int \<times> real" where
  "desc_key PInf = (0, 0)"
| "desc_key (Fin x) = (1, - x)"
| "desc_key NInf = (2, 0)"
| "desc_key NaN = (3, 0)"

text \<open>\<open>fl_less a b\<close>: the comparison \<^verbatim>\<open>a < b\<close> of two floats, false when one is NaN.\<close>

definition fl_less :: "fl \<Rightarrow> fl \<Rightarrow> bool" where
  "fl_less a b = (a \<noteq> NaN \<and> b \<noteq> NaN \<and> asc_key a < asc_key b)"

subsection \<open>Formatting (lines 108-116)\<close>

text \<open>
  The strings the callbacks return, kept symbolic where they print a float:
  \<open>NA\<close> is \<^verbatim>\<open>'N/A'\<close>, \<open>Empty\<close> is \<^verbatim>\<open>''\<close>, \<open>Plain v\<close> is \<^verbatim>\<open>f"{v:,.2f}"\<close>, \<open>Percent v\<close> is
  \<^verbatim>\<open>f"{v:,.2f}%"\<close>, \<open>USDollar v\<close> is \<^verbatim>\<open>f"US$ {v:,.2f}"\<close>, \<open>Delta t\<close> is \<open>t\<close> after the
  prefix of lines 309, \<open>YearText y\<close> is \<^verbatim>\<open>f"Year {y}"\<close>, \<open>RangeText y0 y1\<close> is the range of
  line 311 and \<open>RankText k n\<close> is \<^verbatim>\<open>f"#{k} of {n}"\<close>.
\<close>

datatype kpi_text =
    NA | Empty | Plain fl | Percent fl | USDollar fl | Delta kpi_text
  | YearText int | RangeText int int | RankText nat nat

text \<open>\<^verbatim>\<open>sub in s\<close> on strings.\<close>

fun str_contains :: "string \<Rightarrow> string \<Rightarrow> bool" where
  "str_contains sub [] = (sub = [])"
| "str_contains sub (c # cs) = (take (length sub) (c # cs) = sub \<or> str_contains sub cs)"

definition format_value :: "string \<Rightarrow> fl \<Rightarrow> kpi_text" where
  "format_value indicator_name v =
     (if isna v then NA
      else if str_contains ''%'' indicator_name then Percent v
      else if str_contains ''US$'' indicator_name then USDollar v
      else Plain v)"

subsection \<open>The KPI cards (lines 273-312)\<close>

definition bind_err :: "py_error + 'a \<Rightarrow> ('a \<Rightarrow> py_error + 'b) \<Rightarrow> py_error + 'b" where
  "bind_err m f = (case m of Inl e \<Rightarrow> Inl e | Inr x \<Rightarrow> f x)"

text \<open>\<^verbatim>\<open>df.iloc[i]\<close>: a negative position counts from the end, a position out of range raises.\<close>

definition iloc :: "'a list \<Rightarrow> int \<Rightarrow> py_error + 'a" where
  "iloc xs i =
     (if 0 \<le> i
      then (if i < int (length xs) then Inr (xs ! nat i) else Inl IndexError)
      else (if - i \<le> int (length xs) then Inr (xs ! nat (int (length xs) + i))
            else Inl IndexError))"

text \<open>\<^verbatim>\<open>a / b\<close> on Python integers.\<close>

definition py_truediv :: "int \<Rightarrow> int \<Rightarrow> py_error + real" where
  "py_truediv a b = (if b = 0 then Inl ZeroDivisionError else Inr (of_int a / of_int b))"

definition between :: "int \<Rightarrow> int \<Rightarrow> int \<Rightarrow> bool" where
  "between y0 y1 y = (y0 \<le> y \<and> y \<le> y1)"

text \<open>Lines 284-289: the pair \<^verbatim>\<open>(var_pct, var_abs)\<close>.\<close>

definition yoy :: "canon_row list \<Rightarrow> fl \<Rightarrow> py_error + fl \<times> fl" where
  "yoy df_indicator last_val =
     (if 2 \<le> length df_indicator then
        bind_err (iloc df_indicator (- 2)) (\<lambda>prev_row.
          let prev_val = Value prev_row;
              var_pct = (if prev_val \<noteq> Fin 0 \<and> notna prev_val
                         then fmul (fdiv (fsub last_val prev_val) prev_val) (Fin 100)
                         else NaN);
              var_abs = fsub last_val prev_val
          in Inr (var_pct, var_abs))
      else Inr (NaN, NaN))"

text \<open>Line 294.\<close>

definition cagr_of :: "fl \<Rightarrow> fl \<Rightarrow> int \<Rightarrow> py_error + fl" where
  "cagr_of last_val first_val num_years =
     (if first_val \<noteq> Fin 0 \<and> notna first_val then
        bind_err (py_truediv 1 num_years) (\<lambda>e.
          Inr (fmul (fsub (fpow (fdiv last_val first_val) e) (Fin 1)) (Fin 100)))
      else Inr NaN)"

text \<open>Lines 296-304: the pair \<^verbatim>\<open>(rank_text, top_text)\<close>. \<open>df_all\<close> is the global \<^verbatim>\<open>DF_ALL\<close>.\<close>

definition rank_of :: "canon_row list \<Rightarrow> string \<Rightarrow> string \<Rightarrow> int \<Rightarrow> py_error + kpi_text \<times> kpi_text" where
  "rank_of df_all indicator kpi_country last_year =
     (let df_last_year =
            filter (\<lambda>r. notna (Value r))
              (filter (\<lambda>r. Indicator r = indicator \<and> Year r = last_year) df_all)
      in if df_last_year = [] then Inr (NA, Empty)
         else
           let sorted_rows = sort_key (\<lambda>r. desc_key (Value r)) df_last_year;
               ranked = zip [1..<Suc (length sorted_rows)] sorted_rows;
               row = filter (\<lambda>(k, r). Country r = kpi_country) ranked
           in bind_err (if row \<noteq> []
                        then bind_err (iloc row 0) (\<lambda>(k, r).
                               Inr (RankText k (length sorted_rows)))
                        else Inr NA) (\<lambda>rank_text.
                Inr (rank_text, YearText last_year)))"

definition update_kpis ::
  "canon_row list \<Rightarrow> string \<Rightarrow> string \<Rightarrow> int \<times> int \<Rightarrow> py_error + kpi_text list" where
  "update_kpis df_all indicator kpi_country year_range =
     (let y0 = fst year_range; y1 = snd year_range;
          df_indicator = filter (\<lambda>r. Indicator r = indicator \<and> Country r = kpi_country
                                      \<and> between y0 y1 (Year r)) df_all
      in if df_indicator = [] then Inr (replicate 8 NA)
         else
           let df_indicator = sort_key Year df_indicator
           in bind_err (iloc df_indicator (- 1)) (\<lambda>last_row.
                let last_val = Value last_row; last_year = Year last_row
                in bind_err (yoy df_indicator last_val) (\<lambda>(var_pct, var_abs).
                     bind_err (iloc df_indicator 0) (\<lambda>first_row.
                       let first_val = Value first_row; first_year = Year first_row;
                           num_years = max 1 (last_year - first_year)
                       in bind_err (cagr_of last_val first_val num_years) (\<lambda>cagr.
                            bind_err (rank_of df_all indicator kpi_country last_year)
                              (\<lambda>(rank_text, top_text).
                                 Inr [format_value indicator last_val,
                                      YearText last_year,
                                      (if notna var_pct then Percent var_pct else NA),
                                      (if notna var_abs
                                       then Delta (format_value indicator var_abs)
                                       else Delta NA),
                                      (if notna cagr then Percent cagr else NA),
                                      RangeText y0 y1,
                                      rank_text,
                                      top_text]))))))"

subsection \<open>The bar chart (lines 337-353)\<close>

text \<open>
  \<^verbatim>\<open>idxmax\<close> on the values of one group: the first row that holds the greatest value,
  missing values skipped; \<open>None\<close> when every value is missing.
\<close>

fun idxmax_from :: "canon_row option \<Rightarrow> canon_row list \<Rightarrow> canon_row option" where
  "idxmax_from best [] = best"
| "idxmax_from best (r # rs) =
     (if isna (Value r) then idxmax_from best rs
      else (case best of
              None \<Rightarrow> idxmax_from (Some r) rs
            | Some b \<Rightarrow>
                if fl_less (Value b) (Value r) then idxmax_from (Some r) rs
                else idxmax_from best rs))"

definition idxmax :: "canon_row list \<Rightarrow> canon_row option" where
  "idxmax grp = idxmax_from None grp"

text \<open>
  Line 344 and \<^verbatim>\<open>df.loc[idx]\<close>: the groups in the order of their keys, each giving the
  row of its \<^verbatim>\<open>idxmax\<close>. A group without any value has no such row, and looking its
  label up raises.
\<close>

fun loc_idxmax :: "canon_row list \<Rightarrow> string list \<Rightarrow> py_error + canon_row list" where
  "loc_idxmax df [] = Inr []"
| "loc_idxmax df (c # cs) =
     (case idxmax (filter (\<lambda>r. Country r = c) df) of
        None \<Rightarrow> Inl KeyError
      | Some r \<Rightarrow> bind_err (loc_idxmax df cs) (\<lambda>rest. Inr (r # rest)))"

datatype figure = NoData | Bar "canon_row list"

definition update_bar_chart ::
  "canon_row list \<Rightarrow> string \<Rightarrow> int \<times> int \<Rightarrow> py_error + figure" where
  "update_bar_chart df_all indicator year_range =
     (let y0 = fst year_range; y1 = snd year_range;
          df = filter (\<lambda>r. Indicator r = indicator \<and> between y0 y1 (Year r)) df_all
      in if df = [] then Inr NoData
         else
           bind_err (loc_idxmax (sort_key Year df) (sort (remdups (map Country df))))
             (\<lambda>picked.
                let df_last = sort_key (\<lambda>r. desc_key (Value r))
                                (filter (\<lambda>r. notna (Value r)) picked)
                in if df_last = [] then Inr NoData else Inr (Bar df_last)))"

subsection \<open>The aggregation without the memo\<close>

text \<open>
  The same walk over the pages written against the network alone, every page requested
  once and no object shared: what lines 68-96 compute when no page of the indicator is
  in the memo yet. \<open>pages_direct\<close> is the loop of lines 75-78 with \<open>acc\<close> the rows so
  far, \<open>aggregate_direct\<close> the body of the \<^verbatim>\<open>try\<close>.
\<close>

fun pages_direct ::
  "(key \<Rightarrow> py_error + response) \<Rightarrow> (int \<Rightarrow> key) \<Rightarrow> int list \<Rightarrow> raw_record list
     \<Rightarrow> py_error + raw_record list" where
  "pages_direct net mk [] acc = Inr acc"
| "pages_direct net mk (p # ps) acc =
     (case net (mk p) of
        Inl e \<Rightarrow> Inl e
      | Inr (Obj n) \<Rightarrow> if 1 < n then Inl KeyError else pages_direct net mk ps acc
      | Inr Scalar \<Rightarrow> Inl TypeError
      | Inr ShortList \<Rightarrow> pages_direct net mk ps acc
      | Inr (Page m rs) \<Rightarrow> pages_direct net mk ps (acc @ rs))"

definition aggregate_direct ::
  "(key \<Rightarrow> py_error + response) \<Rightarrow> (string \<Rightarrow> int option) \<Rightarrow> (string \<times> string) list
     \<Rightarrow> int \<times> int \<Rightarrow> string \<times> string \<Rightarrow> py_error + dataframe option" where
  "aggregate_direct net to_numeric countries_dict date_range ind =
     (let countries_iso = join_semicolon (map snd countries_dict);
          mk = (\<lambda>p. (countries_iso, snd ind, date_range, p))
      in case net (mk 1) of
           Inl e \<Rightarrow> Inl e
         | Inr (Page m rs) \<Rightarrow>
             if rs = [] then Inr None
             else (case total_pages_of m of
                     Inl e \<Rightarrow> Inl e
                   | Inr total_pages \<Rightarrow>
                       (case pages_direct net mk [2..total_pages] rs of
                          Inl e \<Rightarrow> Inl e
                        | Inr all_rows \<Rightarrow>
                            Inr (Some (df_clean_of to_numeric countries_dict
                                         (fst ind) all_rows))))
         | Inr r \<Rightarrow> Inr None)"

text \<open>The frames of a whole registry, an indicator that raised or had no data giving none.\<close>

definition frames_direct ::
  "(key \<Rightarrow> py_error + response) \<Rightarrow> (string \<Rightarrow> int option) \<Rightarrow> (string \<times> string) list
     \<Rightarrow> int \<times> int \<Rightarrow> (string \<times> string) list \<Rightarrow> dataframe list" where
  "frames_direct net to_numeric countries_dict date_range inds =
     List.map_filter
       (\<lambda>ind. case aggregate_direct net to_numeric countries_dict date_range ind of
                 Inl e \<Rightarrow> None
               | Inr d \<Rightarrow> d)
       inds"

text \<open>No page of the indicator code is in the memo.\<close>

definition unseen :: "string \<Rightarrow> world \<Rightarrow> bool" where
  "unseen code w = (\<forall>e \<in> set (cache w). fst (snd (fst e)) \<noteq> code)"

subsection \<open>Predicates of the statements\<close>

text \<open>A field shows a finite number or the marker for an unavailable one.\<close>

fun is_finite :: "fl \<Rightarrow> bool" where
  "is_finite (Fin x) = True"
| "is_finite v = False"

fun finite_or_na :: "kpi_text \<Rightarrow> bool" where
  "finite_or_na NA = True"
| "finite_or_na Empty = False"
| "finite_or_na (Plain v) = is_finite v"
| "finite_or_na (Percent v) = is_finite v"
| "finite_or_na (USDollar v) = is_finite v"
| "finite_or_na (Delta t) = finite_or_na t"
| "finite_or_na (YearText y) = True"
| "finite_or_na (RangeText y0 y1) = True"
| "finite_or_na (RankText k n) = True"

text \<open>A field shows no NaN: a number that is not missing, a text, or a marker.\<close>

fun shows_no_nan :: "kpi_text \<Rightarrow> bool" where
  "shows_no_nan (Plain v) = notna v"
| "shows_no_nan (Percent v) = notna v"
| "shows_no_nan (USDollar v) = notna v"
| "shows_no_nan (Delta t) = shows_no_nan t"
| "shows_no_nan t = True"

text \<open>The rows of the dataset that a selection matches (line 276).\<close>

definition selection :: "canon_row list \<Rightarrow> string \<Rightarrow> string \<Rightarrow> int \<times> int \<Rightarrow> canon_row list" where
  "selection df_all indicator kpi_country year_range =
     filter (\<lambda>r. Indicator r = indicator \<and> Country r = kpi_country
                  \<and> between (fst year_range) (snd year_range) (Year r)) df_all"

subsection \<open>Concrete data\<close>

text \<open>
  An instance of \<open>to_numeric\<close> for the examples: a string of decimal digits is the number
  it writes, any other string is not a number.
\<close>

definition is_digit :: "char \<Rightarrow> bool" where
  "is_digit c = (c \<in> set ''0123456789'')"

definition digit_value :: "char \<Rightarrow> int" where
  "digit_value c = int (of_char c) - 48"

definition to_numeric_digits :: "string \<Rightarrow> int option" where
  "to_numeric_digits s =
     (if s \<noteq> [] \<and> list_all is_digit s
      then Some (foldl (\<lambda>n c. 10 * n + digit_value c) 0 s)
      else None)"

definition ex_countries :: "(string \<times> string) list" where
  "ex_countries = [(''Germany'', ''DEU''), (''France'', ''FRA''), (''Spain'', ''ESP'')]"

definition rec_of :: "string \<Rightarrow> string \<Rightarrow> string \<Rightarrow> fl \<Rightarrow> raw_record" where
  "rec_of code name d v = \<lparr>countryiso3code = code, country = name, date = d, rvalue = v\<rparr>"

definition row_of :: "string \<Rightarrow> string \<Rightarrow> int \<Rightarrow> fl \<Rightarrow> string \<Rightarrow> canon_row" where
  "row_of code name y v ind =
     \<lparr>ISO3Code = code, Country = name, Year = y, Value = v, Indicator = ind\<rparr>"

text \<open>An indicator whose data come in two pages of one record each.\<close>

definition net_two_pages :: "key \<Rightarrow> py_error + response" where
  "net_two_pages k =
     (case k of (codes, ind, dr, p) \<Rightarrow>
        if p = 1 then Inr (Page (MetaDict (PagesInt 2))
                             [rec_of ''DEU'' ''Germany'' ''2020'' (Fin 100)])
        else if p = 2 then Inr (Page (MetaDict (PagesInt 2))
                                  [rec_of ''DEU'' ''Germany'' ''2021'' (Fin 110)])
        else Inl RequestError)"

text \<open>Germany with a smaller value in the later year.\<close>

definition df_falling :: "canon_row list" where
  "df_falling = [row_of ''DEU'' ''Germany'' 2020 (Fin 110) ''X'',
                 row_of ''DEU'' ''Germany'' 2021 (Fin 100) ''X'']"

text \<open>
  A page with a usable record, a record without value and a record whose date is not a
  number; and two indicators that come out of order.
\<close>

definition net_gaps :: "key \<Rightarrow> py_error + response" where
  "net_gaps k =
     (case k of (codes, ind, dr, p) \<Rightarrow>
        if p = 1 \<and> ind = ''B.CODE'' then
          Inr (Page (MetaDict PagesAbsent)
                 [rec_of ''FRA'' ''France'' ''2021'' (Fin 90),
                  rec_of ''DEU'' ''Germany'' ''2021'' NaN,
                  rec_of ''DEU'' ''Germany'' ''2020Q1'' (Fin 5),
                  rec_of ''DEU'' ''Germany'' ''2020'' (Fin 100)])
        else if p = 1 \<and> ind = ''A.CODE'' then
          Inr (Page (MetaDict (PagesInt 1))
                 [rec_of ''XKX'' ''Kosovo'' ''2020'' (Fin 7)])
        else Inl RequestError)"

definition ex_indicators :: "(string \<times> string) list" where
  "ex_indicators = [(''B'', ''B.CODE''), (''A'', ''A.CODE'')]"

text \<open>An indicator whose only record has no value.\<close>

definition net_all_missing :: "key \<Rightarrow> py_error + response" where
  "net_all_missing k =
     Inr (Page (MetaDict PagesAbsent) [rec_of ''DEU'' ''Germany'' ''2020'' NaN])"

text \<open>
  Four indicators with one page each, except \<^verbatim>\<open>B.CODE\<close>: its first page announces two
  pages and the request for the second one fails.
\<close>

definition net_page2_fails :: "key \<Rightarrow> py_error + response" where
  "net_page2_fails k =
     (case k of (codes, ind, dr, p) \<Rightarrow>
        if p = 1 \<and> ind = ''B.CODE'' then
          Inr (Page (MetaDict (PagesInt 2)) [rec_of ''DEU'' ''Germany'' ''2020'' (Fin 1)])
        else if p = 1 then
          Inr (Page (MetaDict (PagesInt 1)) [rec_of ''DEU'' ''Germany'' ''2020'' (Fin 2)])
        else Inl RequestError)"

definition four_indicators :: "(string \<times> string) list" where
  "four_indicators = [(''A'', ''A.CODE''), (''B'', ''B.CODE''), (''C'', ''C.CODE''),
                      (''D'', ''D.CODE'')]"

text \<open>A first page with a record and a \<^verbatim>\<open>pages\<close> entry that is not a number.\<close>

definition net_pages_malformed :: "key \<Rightarrow> py_error + response" where
  "net_pages_malformed k =
     (case k of (codes, ind, dr, p) \<Rightarrow>
        if p = 1 then
          Inr (Page (MetaDict PagesMalformed) [rec_of ''DEU'' ''Germany'' ''2020'' (Fin 100)])
        else Inl RequestError)"

text \<open>Datasets of one indicator \<^verbatim>\<open>X\<close> for the KPI cards.\<close>

definition df_growth :: "canon_row list" where
  "df_growth = [row_of ''DEU'' ''Germany'' 2020 (Fin 100) ''X'',
                row_of ''DEU'' ''Germany'' 2021 (Fin 110) ''X'']"



definition df_negative :: "canon_row list" where
  "df_negative = [row_of ''DEU'' ''Germany'' 2020 (Fin (- 2)) ''X'',
                  row_of ''DEU'' ''Germany'' 2021 (Fin (- 8)) ''X'']"

definition df_rank :: "canon_row list" where
  "df_rank = [row_of ''ESP'' ''Spain'' 2021 (Fin 80) ''X'',
              row_of ''DEU'' ''Germany'' 2021 (Fin 110) ''X'',
              row_of ''FRA'' ''France'' 2021 (Fin 90) ''X'',
              row_of ''DEU'' ''Germany'' 2020 (Fin 70) ''X'',
              row_of ''FRA'' ''France'' 2020 (Fin 95) ''X'']"

text \<open>A page whose record carries a value that the JSON parser reads as infinity.\<close>

definition net_infinite :: "key \<Rightarrow> py_error + response" where
  "net_infinite k =
     Inr (Page (MetaDict (PagesInt 1)) [rec_of ''DEU'' ''Germany'' ''2020'' PInf])"




definition df_two_years :: "canon_row list" where
  "df_two_years = [row_of ''DEU'' ''Germany'' 2019 (Fin 100) ''X'',
                   row_of ''DEU'' ''Germany'' 2021 (Fin 400) ''X'']"


section \<open>Properties\<close>

subsection \<open>Running the aggregation twice\<close>

text \<open>
  C1. Asked: two runs of the aggregation of one indicator with the same inputs against
  the memoized fetcher give the same rows. The code does not: the first run appends the
  records of page 2 to the list inside the memoized object of page 1 (line 78), so the
  second run starts from a page 1 that already holds them and appends them again. Below,
  on an indicator of two pages with one record each, the first run gives the rows of
  2020 and 2021 and the second run gives the row of 2021 twice.
\<close>

theorem aggregation_second_run_duplicates:
  "fst (indicator_body net_two_pages to_numeric_digits ex_countries (2000, 2024)
          (''X'', ''X.CODE'') fresh)
     = Inr (Some \<lparr>columns = canonical_columns,
                  rows = [row_of ''DEU'' ''Germany'' 2020 (Fin 100) ''X'',
                          row_of ''DEU'' ''Germany'' 2021 (Fin 110) ''X'']\<rparr>)
   \<and> fst (indicator_body net_two_pages to_numeric_digits ex_countries (2000, 2024)
            (''X'', ''X.CODE'')
            (snd (indicator_body net_two_pages to_numeric_digits ex_countries (2000, 2024)
                    (''X'', ''X.CODE'') fresh)))
     = Inr (Some \<lparr>columns = canonical_columns,
                  rows = [row_of ''DEU'' ''Germany'' 2020 (Fin 100) ''X'',
                          row_of ''DEU'' ''Germany'' 2021 (Fin 110) ''X'',
                          row_of ''DEU'' ''Germany'' 2021 (Fin 110) ''X'']\<rparr>)"
  by code_simp

subsection \<open>The row behind each bar\<close>

text \<open>
  C2. Asked: for each country the bar chart shows the row of the latest year in the
  range. The code takes \<^verbatim>\<open>idxmax\<close> of the column \<^verbatim>\<open>Value\<close> (line 344), which is the row
  of the greatest value. Below, Germany has 110 in 2020 and 100 in 2021, and the chart
  shows the row of 2020.
\<close>

theorem bar_chart_shows_greatest_value:
  "update_bar_chart df_falling ''X'' (2020, 2021)
     = Inr (Bar [row_of ''DEU'' ''Germany'' 2020 (Fin 110) ''X''])"
  by code_simp

subsection \<open>Frames of the build\<close>

lemma clean_record_Some:
  "clean_record tn cs nm r = Some c \<Longrightarrow>
     notna (Value c) \<and> tn (date r) = Some (Year c) \<and> Indicator c = nm \<and> Value c = rvalue r"
  by (auto simp: clean_record_def isna_def notna_def split: option.splits if_splits)

lemma map_filter_mem:
  "c \<in> set (List.map_filter f xs) \<longleftrightarrow> (\<exists>x \<in> set xs. f x = Some c)"
  by (induction xs) (auto simp: List.map_filter_simps split: option.splits)

lemma df_clean_of_rows:
  assumes "c \<in> set (rows (df_clean_of tn cs nm all_rows))"
  shows "notna (Value c) \<and> (\<exists>s. tn s = Some (Year c)) \<and> Indicator c = nm"
proof -
  from assms obtain x where "clean_record tn cs nm x = Some c"
    by (auto simp: df_clean_of_def map_filter_mem)
  from clean_record_Some[OF this] show ?thesis by blast
qed

lemma df_clean_of_columns: "columns (df_clean_of tn cs nm all_rows) = canonical_columns"
  by (simp add: df_clean_of_def)

lemma indicator_body_frame:
  "indicator_body net tn cs dr ind w = (Inr (Some d), w') \<Longrightarrow>
     \<exists>all_rows. d = df_clean_of tn cs (fst ind) all_rows"
  by (auto simp: indicator_body_def Let_def
           split: prod.splits sum.splits response.splits if_splits)

lemma indicator_loop_frames:
  "indicator_loop net tn cs dr inds dfs w = (dfs', w') \<Longrightarrow> d \<in> set dfs' \<Longrightarrow>
     d \<in> set dfs \<or> (\<exists>ind all_rows. ind \<in> set inds \<and> d = df_clean_of tn cs (fst ind) all_rows)"
proof (induction inds arbitrary: dfs w)
  case Nil
  then show ?case by simp
next
  case (Cons ind inds)
  obtain res w1 where b: "indicator_body net tn cs dr ind w = (res, w1)"
    by (cases "indicator_body net tn cs dr ind w")
  show ?case
  proof (cases res)
    case (Inl e)
    with Cons.prems b have "indicator_loop net tn cs dr inds dfs w1 = (dfs', w')" by simp
    from Cons.IH[OF this Cons.prems(2)] show ?thesis by auto
  next
    case (Inr o1)
    show ?thesis
    proof (cases o1)
      case None
      with Inr Cons.prems b have "indicator_loop net tn cs dr inds dfs w1 = (dfs', w')" by simp
      from Cons.IH[OF this Cons.prems(2)] show ?thesis by auto
    next
      case (Some df)
      with Inr Cons.prems b have "indicator_loop net tn cs dr inds (dfs @ [df]) w1 = (dfs', w')"
        by simp
      from Cons.IH[OF this Cons.prems(2)]
      have "d \<in> set (dfs @ [df]) \<or>
            (\<exists>ind all_rows. ind \<in> set inds \<and> d = df_clean_of tn cs (fst ind) all_rows)" .
      moreover from b Inr Some obtain all_rows where "df = df_clean_of tn cs (fst ind) all_rows"
        using indicator_body_frame by blast
      ultimately show ?thesis
        by (metis Un_iff empty_iff empty_set list.set_intros(1) list.set_intros(2)
              set_ConsD set_append)
    qed
  qed
qed

lemma remdups_same_columns:
  "dfs \<noteq> [] \<Longrightarrow> \<forall>d \<in> set dfs. columns d = cols \<Longrightarrow> distinct cols \<Longrightarrow>
     remdups (concat (map columns dfs)) = cols"
proof (induction dfs)
  case Nil
  then show ?case by simp
next
  case (Cons d dfs)
  show ?case
  proof (cases "dfs = []")
    case True
    with Cons.prems show ?thesis by (simp add: distinct_remdups_id)
  next
    case False
    with Cons have ih: "remdups (concat (map columns dfs)) = cols" by simp
    have "set cols \<subseteq> set (concat (map columns dfs))"
      using ih by (metis set_remdups subset_refl)
    then have "remdups (cols @ concat (map columns dfs)) = remdups (concat (map columns dfs))"
      by (induction cols) auto
    with ih Cons.prems show ?thesis by simp
  qed
qed

lemma distinct_canonical_columns: "distinct canonical_columns"
  by (simp add: canonical_columns_def)

subsection \<open>No missing value in the dataset\<close>

text \<open>
  C10. Every row of the dataset that the build returns has a value that is not missing,
  and a year that is a number: the year of a row is what the numeric conversion made of
  some date string. (The rows whose value or date did not convert were dropped at line
  95.) This holds for every network, every registry and every state of the memo.
\<close>

theorem dataset_rows_have_value_and_year:
  "\<forall>r \<in> set (rows (fst (get_worldbank_data net to_numeric countries_dict indicators_dict
                            start_year end_year w))).
     notna (Value r) \<and> (\<exists>s. to_numeric s = Some (Year r))"
proof
  fix r
  assume r: "r \<in> set (rows (fst (get_worldbank_data net to_numeric countries_dict
                                    indicators_dict start_year end_year w)))"
  obtain dfs w' where l: "indicator_loop net to_numeric countries_dict (start_year, end_year)
                            indicators_dict [] w = (dfs, w')"
    by (cases "indicator_loop net to_numeric countries_dict (start_year, end_year)
                 indicators_dict [] w")
  from r l obtain d where d: "d \<in> set dfs" "r \<in> set (rows d)"
    by (auto simp: get_worldbank_data_def sort_values_ICY_def pd_concat_def split: if_splits)
  from indicator_loop_frames[OF l d(1)] obtain ind all_rows
    where "d = df_clean_of to_numeric countries_dict (fst ind) all_rows" by auto
  with d(2) df_clean_of_rows show "notna (Value r) \<and> (\<exists>s. to_numeric s = Some (Year r))"
    by blast
qed

text \<open>
  On the pages of \<open>net_gaps\<close> the record without value and the record dated
  \<^verbatim>\<open>2020Q1\<close> are gone from the dataset, and the rows that remain have both.
\<close>

theorem dataset_rows_have_value_and_year_witness:
  "rows (fst (get_worldbank_data net_gaps to_numeric_digits ex_countries ex_indicators
                2000 2024 fresh))
     = [row_of ''XKX'' ''Kosovo'' 2020 (Fin 7) ''A'',
        row_of ''FRA'' ''France'' 2021 (Fin 90) ''B'',
        row_of ''DEU'' ''Germany'' 2020 (Fin 100) ''B'']
   \<and> notna (Value (row_of ''DEU'' ''Germany'' 2020 (Fin 100) ''B''))
   \<and> (\<exists>s. to_numeric_digits s = Some (Year (row_of ''DEU'' ''Germany'' 2020 (Fin 100) ''B'')))"
proof -
  have m: "rows (fst (get_worldbank_data net_gaps to_numeric_digits ex_countries ex_indicators
                2000 2024 fresh))
     = [row_of ''XKX'' ''Kosovo'' 2020 (Fin 7) ''A'',
        row_of ''FRA'' ''France'' 2021 (Fin 90) ''B'',
        row_of ''DEU'' ''Germany'' 2020 (Fin 100) ''B'']"
    by code_simp
  from dataset_rows_have_value_and_year[of net_gaps to_numeric_digits ex_countries
         ex_indicators 2000 2024 fresh] m
  show ?thesis by simp
qed

subsection \<open>The dataset is the sorted concatenation\<close>

text \<open>
  C9. The build returns the frames of the indicators concatenated and sorted by
  (Indicator, Country, Year) ascending: the rows are sorted by that key and are, as a
  multiset, the rows of the frames. The result always has the five canonical columns,
  and when no indicator gives a row it has no rows.
\<close>

theorem dataset_sorted_concatenation:
  "(let dfs = fst (indicator_loop net to_numeric countries_dict (start_year, end_year)
                     indicators_dict [] w);
        df = fst (get_worldbank_data net to_numeric countries_dict indicators_dict
                    start_year end_year w)
    in sorted (map (\<lambda>r. (Indicator r, Country r, Year r)) (rows df))
       \<and> mset (rows df) = mset (concat (map rows dfs))
       \<and> columns df = canonical_columns
       \<and> ((\<forall>d \<in> set dfs. rows d = []) \<longrightarrow> rows df = []))"
proof -
  obtain dfs w' where l: "indicator_loop net to_numeric countries_dict (start_year, end_year)
                            indicators_dict [] w = (dfs, w')"
    by (cases "indicator_loop net to_numeric countries_dict (start_year, end_year)
                 indicators_dict [] w")
  have cols: "\<forall>d \<in> set dfs. columns d = canonical_columns"
    using indicator_loop_frames[OF l] df_clean_of_columns by fastforce
  show ?thesis
  proof (cases "dfs = []")
    case True
    with l show ?thesis by (simp add: get_worldbank_data_def)
  next
    case False
    from False cols have "remdups (concat (map columns dfs)) = canonical_columns"
      by (rule remdups_same_columns) (rule distinct_canonical_columns)
    moreover have "(\<forall>d \<in> set dfs. rows d = []) \<longrightarrow>
                     sort_key (\<lambda>r. (Indicator r, Country r, Year r)) (concat (map rows dfs)) = []"
    proof
      assume "\<forall>d \<in> set dfs. rows d = []"
      then have "concat (map rows dfs) = []" by simp
      then show "sort_key (\<lambda>r. (Indicator r, Country r, Year r)) (concat (map rows dfs)) = []"
        by (simp only: sort_key_simps)
    qed
    ultimately show ?thesis using False l
      by (auto simp: get_worldbank_data_def sort_values_ICY_def pd_concat_def)
  qed
qed

text \<open>
  With \<open>net_gaps\<close> the frames hold the rows of indicator B before the row of indicator
  A, and the dataset has them sorted. With \<open>net_all_missing\<close> the one frame has no row
  and the dataset is empty, with its columns.
\<close>

theorem dataset_sorted_concatenation_witness:
  "concat (map rows (fst (indicator_loop net_gaps to_numeric_digits ex_countries (2000, 2024)
                            ex_indicators [] fresh)))
     = [row_of ''FRA'' ''France'' 2021 (Fin 90) ''B'',
        row_of ''DEU'' ''Germany'' 2020 (Fin 100) ''B'',
        row_of ''XKX'' ''Kosovo'' 2020 (Fin 7) ''A'']
   \<and> sorted (map (\<lambda>r. (Indicator r, Country r, Year r))
               (rows (fst (get_worldbank_data net_gaps to_numeric_digits ex_countries
                             ex_indicators 2000 2024 fresh))))
   \<and> mset (rows (fst (get_worldbank_data net_gaps to_numeric_digits ex_countries
                         ex_indicators 2000 2024 fresh)))
       = mset [row_of ''FRA'' ''France'' 2021 (Fin 90) ''B'',
               row_of ''DEU'' ''Germany'' 2020 (Fin 100) ''B'',
               row_of ''XKX'' ''Kosovo'' 2020 (Fin 7) ''A'']
   \<and> fst (indicator_loop net_all_missing to_numeric_digits ex_countries (2000, 2024)
            ex_indicators [] fresh)
       = [\<lparr>columns = canonical_columns, rows = []\<rparr>,
          \<lparr>columns = canonical_columns, rows = []\<rparr>]
   \<and> rows (fst (get_worldbank_data net_all_missing to_numeric_digits ex_countries
                   ex_indicators 2000 2024 fresh)) = []
   \<and> columns (fst (get_worldbank_data net_all_missing to_numeric_digits ex_countries
                      ex_indicators 2000 2024 fresh)) = canonical_columns"
proof -
  have a: "concat (map rows (fst (indicator_loop net_gaps to_numeric_digits ex_countries
                                    (2000, 2024) ex_indicators [] fresh)))
     = [row_of ''FRA'' ''France'' 2021 (Fin 90) ''B'',
        row_of ''DEU'' ''Germany'' 2020 (Fin 100) ''B'',
        row_of ''XKX'' ''Kosovo'' 2020 (Fin 7) ''A'']"
    by code_simp
  have b: "fst (indicator_loop net_all_missing to_numeric_digits ex_countries (2000, 2024)
                  ex_indicators [] fresh)
       = [\<lparr>columns = canonical_columns, rows = []\<rparr>,
          \<lparr>columns = canonical_columns, rows = []\<rparr>]"
    by code_simp
  from dataset_sorted_concatenation[of net_gaps to_numeric_digits ex_countries 2000 2024
         ex_indicators fresh]
       dataset_sorted_concatenation[of net_all_missing to_numeric_digits ex_countries
         2000 2024 ex_indicators fresh] a b
  show ?thesis by (simp add: Let_def)
qed

subsection \<open>The memo and the network\<close>

lemma fetch_miss:
  "k \<notin> fst ` set (cache w) \<Longrightarrow>
   fetch_worldbank_page net k w =
     (case net k of
        Inl e \<Rightarrow> (Inl e, w)
      | Inr r \<Rightarrow> (Inr (length (heap w)),
                  w\<lparr>cache := take 64 ((k, length (heap w)) # cache w),
                    heap := heap w @ [r]\<rparr>))"
proof -
  assume "k \<notin> fst ` set (cache w)"
  then have "map_of (cache w) k = None" by (simp add: map_of_eq_None_iff)
  then show ?thesis by (simp add: fetch_worldbank_page_def)
qed

lemma fetch_keys:
  "fst ` set (cache (snd (fetch_worldbank_page net k w))) \<subseteq> insert k (fst ` set (cache w))"
  by (auto simp: fetch_worldbank_page_def split: option.splits sum.splits
           dest!: in_set_takeD)

lemma extend_cache: "cache (extend a new w) = cache w"
  by (simp add: extend_def)

lemma fetch_rest_keys:
  "fst ` set (cache (snd (fetch_rest net mk a ps w))) \<subseteq> fst ` set (cache w) \<union> mk ` set ps"
proof (induction ps arbitrary: w)
  case Nil
  then show ?case by simp
next
  case (Cons p ps)
  obtain res w1 where f: "fetch_worldbank_page net (mk p) w = (res, w1)"
    by (cases "fetch_worldbank_page net (mk p) w")
  have k1: "fst ` set (cache w1) \<subseteq> insert (mk p) (fst ` set (cache w))"
    using fetch_keys[of net "mk p" w] f by simp
  have step: "fst ` set (cache (snd (fetch_rest net mk a ps w2))) \<subseteq>
                fst ` set (cache w) \<union> mk ` set (p # ps)"
    if "cache w2 = cache w1" for w2
    using Cons.IH[of w2] k1 that by auto
  show ?case
  proof (cases res)
    case (Inl e)
    with f k1 show ?thesis by auto
  next
    case (Inr b)
    show ?thesis
    proof (cases "heap w1 ! b")
      case (Obj n)
      with f Inr k1 step[of w1] show ?thesis by auto
    next
      case Scalar
      with f Inr k1 show ?thesis by auto
    next
      case ShortList
      with f Inr step[of w1] show ?thesis by simp
    next
      case (Page m rs)
      with f Inr step[of w1] step[of "extend a rs w1"] show ?thesis
        by (simp add: extend_cache)
    qed
  qed
qed

lemma fetch_rest_direct:
  assumes "a < length (heap w)" and "heap w ! a = Page m acc"
    and "distinct ps" and "inj mk" and "\<forall>p \<in> set ps. mk p \<notin> fst ` set (cache w)"
  shows "case fetch_rest net mk a ps w of
           (Inl e, w') \<Rightarrow> pages_direct net mk ps acc = Inl e
         | (Inr u, w') \<Rightarrow> \<exists>all_rows. pages_direct net mk ps acc = Inr all_rows
                             \<and> heap w' ! a = Page m all_rows \<and> a < length (heap w')"
  using assms
proof (induction ps arbitrary: w acc)
  case Nil
  then show ?case by simp
next
  case (Cons p ps)
  from Cons.prems have miss: "mk p \<notin> fst ` set (cache w)" by simp
  show ?case
  proof (cases "net (mk p)")
    case (Inl e)
    with miss show ?thesis by (simp add: fetch_miss)
  next
    case (Inr r)
    define w1 where "w1 = w\<lparr>cache := take 64 ((mk p, length (heap w)) # cache w),
                            heap := heap w @ [r]\<rparr>"
    have f: "fetch_worldbank_page net (mk p) w = (Inr (length (heap w)), w1)"
      using miss Inr by (simp add: fetch_miss w1_def)
    have hb: "heap w1 ! length (heap w) = r" by (simp add: w1_def)
    have ha: "heap w1 ! a = Page m acc" "a < length (heap w1)"
      using Cons.prems(1,2) by (simp_all add: w1_def nth_append)
    have keys1: "fst ` set (cache w1) \<subseteq> insert (mk p) (fst ` set (cache w))"
      using fetch_keys[of net "mk p" w] f by simp
    have rest: "\<forall>q \<in> set ps. mk q \<notin> fst ` set (cache w1)"
    proof
      fix q assume q: "q \<in> set ps"
      with Cons.prems(3) have "q \<noteq> p" by auto
      with Cons.prems(4) have "mk q \<noteq> mk p" by (auto dest: injD)
      moreover from q Cons.prems(5) have "mk q \<notin> fst ` set (cache w)" by simp
      ultimately show "mk q \<notin> fst ` set (cache w1)" using keys1 by auto
    qed
    from Cons.prems(3) have dps: "distinct ps" by simp
    note ih = Cons.IH[OF _ _ dps Cons.prems(4)]
    show ?thesis
    proof (cases r)
      case (Obj n)
      with f hb Inr ih[OF ha(2) ha(1) rest] show ?thesis
        by (cases "1 < n") (auto split: prod.splits sum.splits)
    next
      case Scalar
      with f hb Inr show ?thesis by simp
    next
      case ShortList
      with f hb Inr ih[OF ha(2) ha(1) rest] show ?thesis
        by (auto split: prod.splits sum.splits)
    next
      case (Page m' rs)
      show ?thesis
      proof (cases "rs = []")
        case True
        with Page f hb Inr ih[OF ha(2) ha(1) rest] show ?thesis
          by (auto split: prod.splits sum.splits)
      next
        case False
        have e1: "a < length (heap (extend a rs w1))"
          using ha(2) by (simp add: extend_def)
        have e2: "heap (extend a rs w1) ! a = Page m (acc @ rs)"
          using ha by (simp add: extend_def)
        have e3: "\<forall>q \<in> set ps. mk q \<notin> fst ` set (cache (extend a rs w1))"
          using rest by (simp add: extend_cache)
        from Page False f hb Inr ih[OF e1 e2 e3] show ?thesis
          by (auto split: prod.splits sum.splits)
      qed
    qed
  qed
qed

lemma pages_direct_nonempty:
  "pages_direct net mk ps acc = Inr all_rows \<Longrightarrow> acc \<noteq> [] \<Longrightarrow> all_rows \<noteq> []"
  by (induction ps arbitrary: acc)
     (auto split: sum.splits response.splits if_splits)

lemma unseen_key:
  "unseen code w \<Longrightarrow> (codes, code, dr, p) \<notin> fst ` set (cache w)"
  by (force simp: unseen_def)

lemma indicator_body_direct:
  assumes "unseen (snd ind) w"
  shows "fst (indicator_body net tn cs dr ind w) = aggregate_direct net tn cs dr ind"
proof -
  define mk :: "int \<Rightarrow> key" where "mk = (\<lambda>p. (join_semicolon (map snd cs), snd ind, dr, p))"
  have inj: "inj mk" by (auto simp: mk_def inj_def)
  have miss: "mk p \<notin> fst ` set (cache w)" for p
    using assms by (simp add: mk_def unseen_key)
  have body: "indicator_body net tn cs dr ind w =
     (case fetch_worldbank_page net (mk 1) w of
           (Inl e, w1) \<Rightarrow> (Inl e, w1)
         | (Inr a, w1) \<Rightarrow>
             (case heap w1 ! a of
                Page m rs \<Rightarrow>
                  if rs = [] then (Inr None, w1)
                  else (case total_pages_of m of
                          Inl e \<Rightarrow> (Inl e, w1)
                        | Inr total_pages \<Rightarrow>
                            (case fetch_rest net mk a [2..total_pages] w1 of
                               (Inl e, w2) \<Rightarrow> (Inl e, w2)
                             | (Inr u, w2) \<Rightarrow>
                                 (case heap w2 ! a of
                                    Page m' all_rows \<Rightarrow>
                                      if all_rows = [] then (Inr None, w2)
                                      else (Inr (Some (df_clean_of tn cs (fst ind) all_rows)), w2)
                                  | r \<Rightarrow> (Inr None, w2))))
              | r \<Rightarrow> (Inr None, w1)))"
    unfolding indicator_body_def mk_def Let_def ..
  have direct: "aggregate_direct net tn cs dr ind =
     (case net (mk 1) of
           Inl e \<Rightarrow> Inl e
         | Inr (Page m rs) \<Rightarrow>
             if rs = [] then Inr None
             else (case total_pages_of m of
                     Inl e \<Rightarrow> Inl e
                   | Inr total_pages \<Rightarrow>
                       (case pages_direct net mk [2..total_pages] rs of
                          Inl e \<Rightarrow> Inl e
                        | Inr all_rows \<Rightarrow> Inr (Some (df_clean_of tn cs (fst ind) all_rows))))
         | Inr r \<Rightarrow> Inr None)"
    unfolding aggregate_direct_def mk_def Let_def ..
  show ?thesis
  proof (cases "net (mk 1)")
    case (Inl e)
    with miss[of 1] show ?thesis by (simp add: body direct fetch_miss)
  next
    case (Inr r)
    define w1 where "w1 = w\<lparr>cache := take 64 ((mk 1, length (heap w)) # cache w),
                            heap := heap w @ [r]\<rparr>"
    define a where "a = length (heap w)"
    have f: "fetch_worldbank_page net (mk 1) w = (Inr a, w1)"
      using miss[of 1] Inr by (simp add: fetch_miss w1_def a_def)
    have ha: "heap w1 ! a = r" "a < length (heap w1)" by (simp_all add: w1_def a_def)
    have keys1: "fst ` set (cache w1) \<subseteq> insert (mk 1) (fst ` set (cache w))"
      using fetch_keys[of net "mk 1" w] f by simp
    show ?thesis
    proof (cases r)
      case (Page m rs)
      show ?thesis
      proof (cases "rs = []")
        case True
        with Page Inr f ha show ?thesis by (simp add: body direct)
      next
        case False
        show ?thesis
        proof (cases "total_pages_of m")
          case (Inl e)
          with False Page Inr f ha show ?thesis by (simp add: body direct)
        next
          case tp: (Inr n)
          have rest: "\<forall>p \<in> set [2..n]. mk p \<notin> fst ` set (cache w1)"
          proof
            fix p assume "p \<in> set [2..n]"
            then have "p \<noteq> 1" by simp
            then have "mk p \<noteq> mk 1" using inj by (auto dest: injD)
            with miss[of p] keys1 show "mk p \<notin> fst ` set (cache w1)" by auto
          qed
          have hp: "heap w1 ! a = Page m rs" using ha Page by simp
          note fr = fetch_rest_direct[OF ha(2) hp distinct_upto inj rest, of net]
          obtain res w2 where r2: "fetch_rest net mk a [2..n] w1 = (res, w2)"
            by (cases "fetch_rest net mk a [2..n] w1")
          show ?thesis
          proof (cases res)
            case (Inl e)
            with fr r2 have "pages_direct net mk [2..n] rs = Inl e" by simp
            with Inl r2 tp False Page Inr f hp show ?thesis by (simp add: body direct)
          next
            case (Inr u)
            with fr r2 obtain all_rows where
              al: "pages_direct net mk [2..n] rs = Inr all_rows" "heap w2 ! a = Page m all_rows"
              by auto
            from pages_direct_nonempty[OF al(1) False] have "all_rows \<noteq> []" .
            with al Inr r2 tp False Page \<open>net (mk 1) = Inr r\<close> f hp show ?thesis
              by (simp add: body direct)
          qed
        qed
      qed
    qed (use Inr f ha in \<open>simp_all add: body direct\<close>)
  qed
qed

lemma indicator_body_keys:
  "fst ` set (cache (snd (indicator_body net tn cs dr ind w))) \<subseteq>
     fst ` set (cache w) \<union> range (\<lambda>p. (join_semicolon (map snd cs), snd ind, dr, p))"
proof -
  define mk :: "int \<Rightarrow> key" where "mk = (\<lambda>p. (join_semicolon (map snd cs), snd ind, dr, p))"
  obtain res w1 where f: "fetch_worldbank_page net (mk 1) w = (res, w1)"
    by (cases "fetch_worldbank_page net (mk 1) w")
  have k1: "fst ` set (cache w1) \<subseteq> fst ` set (cache w) \<union> range mk"
    using fetch_keys[of net "mk 1" w] f by auto
  have k2: "fst ` set (cache (snd (fetch_rest net mk a ps w1))) \<subseteq> fst ` set (cache w) \<union> range mk"
    for a ps
  proof -
    have "fst ` set (cache w1) \<union> mk ` set ps \<subseteq> fst ` set (cache w) \<union> range mk"
      using k1 by blast
    with fetch_rest_keys[of net mk a ps w1] show ?thesis by (rule order_trans)
  qed
  have body: "indicator_body net tn cs dr ind w =
     (case fetch_worldbank_page net (mk 1) w of
           (Inl e, w1) \<Rightarrow> (Inl e, w1)
         | (Inr a, w1) \<Rightarrow>
             (case heap w1 ! a of
                Page m rs \<Rightarrow>
                  if rs = [] then (Inr None, w1)
                  else (case total_pages_of m of
                          Inl e \<Rightarrow> (Inl e, w1)
                        | Inr total_pages \<Rightarrow>
                            (case fetch_rest net mk a [2..total_pages] w1 of
                               (Inl e, w2) \<Rightarrow> (Inl e, w2)
                             | (Inr u, w2) \<Rightarrow>
                                 (case heap w2 ! a of
                                    Page m' all_rows \<Rightarrow>
                                      if all_rows = [] then (Inr None, w2)
                                      else (Inr (Some (df_clean_of tn cs (fst ind) all_rows)), w2)
                                  | r \<Rightarrow> (Inr None, w2))))
              | r \<Rightarrow> (Inr None, w1)))"
    unfolding indicator_body_def mk_def Let_def ..
  have "snd (indicator_body net tn cs dr ind w) = w1
        \<or> (\<exists>a ps. snd (indicator_body net tn cs dr ind w) = snd (fetch_rest net mk a ps w1))"
    by (auto simp: body f split: prod.splits sum.splits response.splits if_splits)
       (metis snd_conv)+
  with k1 k2 have "fst ` set (cache (snd (indicator_body net tn cs dr ind w))) \<subseteq>
          fst ` set (cache w) \<union> range mk"
    by metis
  then show ?thesis by (simp add: mk_def)
qed

lemma indicator_body_unseen:
  assumes "unseen c w" and "c \<noteq> snd ind"
  shows "unseen c (snd (indicator_body net tn cs dr ind w))"
  unfolding unseen_def
proof
  fix e assume e: "e \<in> set (cache (snd (indicator_body net tn cs dr ind w)))"
  then have "fst e \<in> fst ` set (cache w)
             \<union> range (\<lambda>p. (join_semicolon (map snd cs), snd ind, dr, p))"
    using indicator_body_keys[of net tn cs dr ind w] by blast
  then show "fst (snd (fst e)) \<noteq> c"
  proof
    assume "fst e \<in> fst ` set (cache w)"
    with assms(1) show ?thesis by (auto simp: unseen_def)
  next
    assume "fst e \<in> range (\<lambda>p. (join_semicolon (map snd cs), snd ind, dr, p))"
    with assms(2) show ?thesis by auto
  qed
qed

lemma indicator_loop_direct:
  assumes "distinct (map snd inds)" and "\<forall>c \<in> snd ` set inds. unseen c w"
  shows "fst (indicator_loop net tn cs dr inds dfs w) = dfs @ frames_direct net tn cs dr inds"
  using assms
proof (induction inds arbitrary: dfs w)
  case Nil
  then show ?case by (simp add: frames_direct_def List.map_filter_simps)
next
  case (Cons ind inds)
  obtain res w1 where b: "indicator_body net tn cs dr ind w = (res, w1)"
    by (cases "indicator_body net tn cs dr ind w")
  from Cons.prems have "unseen (snd ind) w" by simp
  from indicator_body_direct[OF this, of net tn cs dr] b
  have res: "aggregate_direct net tn cs dr ind = res" by simp
  have d: "distinct (map snd inds)" using Cons.prems by simp
  have u: "\<forall>c \<in> snd ` set inds. unseen c w1"
  proof
    fix c assume c: "c \<in> snd ` set inds"
    have "snd ind \<notin> snd ` set inds" using Cons.prems(1) by simp
    with c have "c \<noteq> snd ind" by blast
    moreover from c Cons.prems(2) have "unseen c w" by auto
    ultimately show "unseen c w1"
      using indicator_body_unseen[of c w ind net tn cs dr] b by simp
  qed
  note ih = Cons.IH[OF d u]
  show ?case
    using b res ih
    by (cases res)
       (auto simp: frames_direct_def List.map_filter_simps split: option.splits)
qed

lemma unseen_fresh: "unseen c fresh"
  by (simp add: unseen_def fresh_def)

lemma get_worldbank_data_direct:
  assumes "distinct (map snd inds)"
  shows "fst (get_worldbank_data net tn cs inds sy ey fresh) =
           (if frames_direct net tn cs (sy, ey) inds \<noteq> []
            then sort_values_ICY (pd_concat (frames_direct net tn cs (sy, ey) inds))
            else \<lparr>columns = canonical_columns, rows = []\<rparr>)"
proof -
  have "fst (indicator_loop net tn cs (sy, ey) inds [] fresh) = frames_direct net tn cs (sy, ey) inds"
    using indicator_loop_direct[OF assms, of fresh net tn cs "(sy, ey)" "[]"] unseen_fresh by simp
  then show ?thesis
    by (auto simp: get_worldbank_data_def split: prod.splits)
qed

lemma map_filter_remove1:
  "f x = None \<Longrightarrow> List.map_filter f (remove1 x xs) = List.map_filter f xs"
  by (induction xs) (auto simp: List.map_filter_simps split: option.splits)

lemma frames_direct_rows:
  assumes "d \<in> set (frames_direct net tn cs dr inds)" and "r \<in> set (rows d)"
  shows "\<exists>ind \<in> set inds. Indicator r = fst ind
           \<and> aggregate_direct net tn cs dr ind = Inr (Some d)"
proof -
  from assms(1) obtain ind where i: "ind \<in> set inds"
      "(case aggregate_direct net tn cs dr ind of Inl e \<Rightarrow> None | Inr d \<Rightarrow> d) = Some d"
    by (auto simp: frames_direct_def map_filter_mem)
  then have a: "aggregate_direct net tn cs dr ind = Inr (Some d)"
    by (auto split: sum.splits)
  then obtain all_rows where "d = df_clean_of tn cs (fst ind) all_rows"
    by (auto simp: aggregate_direct_def Let_def
             split: sum.splits response.splits if_splits)
  with assms(2) df_clean_of_rows have "Indicator r = fst ind" by blast
  with i(1) a show ?thesis by blast
qed

subsection \<open>A failing indicator and the rows of the others\<close>

text \<open>
  On a build that starts with an empty memo, over a registry whose indicator codes are
  distinct, an indicator whose processing raises leaves no trace in the dataset: the
  dataset is the one that the registry without this indicator gives, and no row carries
  its name. The hypotheses are needed: the evaluation after the witness shows a build
  where they fail and the rows of another indicator change.
\<close>

theorem failing_indicator_is_isolated:
  assumes "distinct (map fst indicators_dict)" and "distinct (map snd indicators_dict)"
    and "ind \<in> set indicators_dict"
    and "fst (indicator_body net to_numeric countries_dict (start_year, end_year) ind fresh)
           = Inl e"
  shows "fst (get_worldbank_data net to_numeric countries_dict indicators_dict
                start_year end_year fresh)
           = fst (get_worldbank_data net to_numeric countries_dict (remove1 ind indicators_dict)
                    start_year end_year fresh)
         \<and> (\<forall>r \<in> set (rows (fst (get_worldbank_data net to_numeric countries_dict
                                    indicators_dict start_year end_year fresh))).
               Indicator r \<noteq> fst ind)"
proof -
  let ?dr = "(start_year, end_year)"
  let ?F = "frames_direct net to_numeric countries_dict ?dr"
  have fail: "aggregate_direct net to_numeric countries_dict ?dr ind = Inl e"
    using assms(4) by (simp add: indicator_body_direct[OF unseen_fresh])
  have same: "?F (remove1 ind indicators_dict) = ?F indicators_dict"
    unfolding frames_direct_def by (rule map_filter_remove1) (simp add: fail)
  have d': "distinct (map snd (remove1 ind indicators_dict))"
    using assms(2) by (simp add: distinct_map distinct_remove1 inj_on_def)
  have eq: "fst (get_worldbank_data net to_numeric countries_dict indicators_dict
                start_year end_year fresh)
           = fst (get_worldbank_data net to_numeric countries_dict (remove1 ind indicators_dict)
                    start_year end_year fresh)"
    by (simp only: get_worldbank_data_direct[OF assms(2)] get_worldbank_data_direct[OF d'] same)
  have none: "Indicator r \<noteq> fst ind"
    if r: "r \<in> set (rows (fst (get_worldbank_data net to_numeric countries_dict
                                    indicators_dict start_year end_year fresh)))" for r
  proof
    assume n: "Indicator r = fst ind"
    from r obtain d where d: "d \<in> set (?F indicators_dict)" "r \<in> set (rows d)"
      by (auto simp: get_worldbank_data_direct[OF assms(2)] sort_values_ICY_def pd_concat_def
               split: if_splits)
    from frames_direct_rows[OF d] obtain ind' where i: "ind' \<in> set indicators_dict"
        "Indicator r = fst ind'"
        "aggregate_direct net to_numeric countries_dict ?dr ind' = Inr (Some d)" by blast
    from i(1,2) n assms(1,3) have "ind' = ind"
      by (metis distinct_map inj_onD)
    with i(3) fail show False by simp
  qed
  from eq none show ?thesis by blast
qed

text \<open>
  Four indicators, the second page of B failing: the dataset has the rows of A, C and
  D and equals the dataset of the registry without B.
\<close>

theorem failing_indicator_is_isolated_witness:
  "fst (indicator_body net_page2_fails to_numeric_digits ex_countries (2000, 2024)
          (''B'', ''B.CODE'') fresh) = Inl RequestError
   \<and> rows (fst (get_worldbank_data net_page2_fails to_numeric_digits ex_countries
                   four_indicators 2000 2024 fresh))
       = [row_of ''DEU'' ''Germany'' 2020 (Fin 2) ''A'',
          row_of ''DEU'' ''Germany'' 2020 (Fin 2) ''C'',
          row_of ''DEU'' ''Germany'' 2020 (Fin 2) ''D'']
   \<and> fst (get_worldbank_data net_page2_fails to_numeric_digits ex_countries
            four_indicators 2000 2024 fresh)
       = fst (get_worldbank_data net_page2_fails to_numeric_digits ex_countries
                (remove1 (''B'', ''B.CODE'') four_indicators) 2000 2024 fresh)
   \<and> ''B'' \<notin> set (map Indicator
                     (rows (fst (get_worldbank_data net_page2_fails to_numeric_digits
                                   ex_countries four_indicators 2000 2024 fresh))))"
proof -
  have h1: "distinct (map fst four_indicators)" by (simp add: four_indicators_def)
  have h2: "distinct (map snd four_indicators)" by (simp add: four_indicators_def)
  have h3: "(''B'', ''B.CODE'') \<in> set four_indicators" by (simp add: four_indicators_def)
  have h4: "fst (indicator_body net_page2_fails to_numeric_digits ex_countries (2000, 2024)
                   (''B'', ''B.CODE'') fresh) = Inl RequestError"
    by code_simp
  have r: "rows (fst (get_worldbank_data net_page2_fails to_numeric_digits ex_countries
                        four_indicators 2000 2024 fresh))
       = [row_of ''DEU'' ''Germany'' 2020 (Fin 2) ''A'',
          row_of ''DEU'' ''Germany'' 2020 (Fin 2) ''C'',
          row_of ''DEU'' ''Germany'' 2020 (Fin 2) ''D'']"
    by code_simp
  from failing_indicator_is_isolated[OF h1 h2 h3 h4] h4 r show ?thesis by auto
qed


subsection \<open>The page count\<close>

text \<open>
  C8, as stated: a \<^verbatim>\<open>pages\<close> entry that is malformed counts as one page, and the
  indicator gives its rows of page 1. The code converts the entry with \<^verbatim>\<open>int\<close> (line
  72) inside the \<^verbatim>\<open>try\<close>: the conversion raises, and the indicator gives no row. Below,
  page 1 holds a record for Germany in 2020, and the dataset is empty.
\<close>

theorem malformed_pages_drops_indicator:
  "total_pages_of (MetaDict PagesMalformed) \<noteq> Inr 1
   \<and> fst (indicator_body net_pages_malformed to_numeric_digits ex_countries (2000, 2024)
            (''X'', ''X.CODE'') fresh) = Inl ConversionError
   \<and> rows (fst (get_worldbank_data net_pages_malformed to_numeric_digits ex_countries
                   [(''X'', ''X.CODE'')] 2000 2024 fresh)) = []"
  by code_simp

text \<open>
  C8, amended. For a first page that is accepted as having data, requested with no page
  of the indicator in the memo: the page count is the \<^verbatim>\<open>pages\<close> entry when it converts to
  an integer \<open>n\<close>, and the pages \<open>2..n\<close> are walked; it is 1 when the entry is absent,
  and the rows are those of page 1; and when the entry is malformed the processing of
  the indicator raises.
\<close>

theorem page_count_from_metadata:
  assumes "unseen (snd ind) w"
    and "net (join_semicolon (map snd countries_dict), snd ind, date_range, 1)
           = Inr (Page (MetaDict pf) rs)"
    and "rs \<noteq> []"
  shows "total_pages_of (MetaDict pf)
           = (case pf of PagesAbsent \<Rightarrow> Inr 1 | PagesInt n \<Rightarrow> Inr n
                       | PagesMalformed \<Rightarrow> Inl ConversionError)
         \<and> fst (indicator_body net to_numeric countries_dict date_range ind w)
           = (case pf of
                PagesAbsent \<Rightarrow> Inr (Some (df_clean_of to_numeric countries_dict (fst ind) rs))
              | PagesInt n \<Rightarrow>
                  (case pages_direct net
                          (\<lambda>p. (join_semicolon (map snd countries_dict), snd ind, date_range, p))
                          [2..n] rs of
                     Inl e \<Rightarrow> Inl e
                   | Inr all_rows \<Rightarrow>
                       Inr (Some (df_clean_of to_numeric countries_dict (fst ind) all_rows)))
              | PagesMalformed \<Rightarrow> Inl ConversionError)"
proof -
  have "fst (indicator_body net to_numeric countries_dict date_range ind w)
          = aggregate_direct net to_numeric countries_dict date_range ind"
    by (rule indicator_body_direct[OF assms(1)])
  with assms(2,3) show ?thesis
    by (cases pf) (simp_all add: aggregate_direct_def Let_def)
qed

text \<open>
  An entry of 2 walks page 2 (\<open>net_two_pages\<close>); without entry the rows are those of
  page 1 (indicator B of \<open>net_gaps\<close>).
\<close>

theorem page_count_from_metadata_witness:
  "fst (indicator_body net_two_pages to_numeric_digits ex_countries (2000, 2024)
          (''X'', ''X.CODE'') fresh)
     = Inr (Some (df_clean_of to_numeric_digits ex_countries ''X''
                    [rec_of ''DEU'' ''Germany'' ''2020'' (Fin 100),
                     rec_of ''DEU'' ''Germany'' ''2021'' (Fin 110)]))
   \<and> fst (indicator_body net_gaps to_numeric_digits ex_countries (2000, 2024)
            (''B'', ''B.CODE'') fresh)
     = Inr (Some (df_clean_of to_numeric_digits ex_countries ''B''
                    [rec_of ''FRA'' ''France'' ''2021'' (Fin 90),
                     rec_of ''DEU'' ''Germany'' ''2021'' NaN,
                     rec_of ''DEU'' ''Germany'' ''2020Q1'' (Fin 5),
                     rec_of ''DEU'' ''Germany'' ''2020'' (Fin 100)]))"
proof -
  have u: "unseen c fresh" for c by (rule unseen_fresh)
  have n1: "net_two_pages (join_semicolon (map snd ex_countries), snd (''X'', ''X.CODE''),
                           (2000, 2024), 1)
              = Inr (Page (MetaDict (PagesInt 2)) [rec_of ''DEU'' ''Germany'' ''2020'' (Fin 100)])"
    by (simp add: net_two_pages_def)
  have n2: "net_gaps (join_semicolon (map snd ex_countries), snd (''B'', ''B.CODE''),
                      (2000, 2024), 1)
              = Inr (Page (MetaDict PagesAbsent)
                       [rec_of ''FRA'' ''France'' ''2021'' (Fin 90),
                        rec_of ''DEU'' ''Germany'' ''2021'' NaN,
                        rec_of ''DEU'' ''Germany'' ''2020Q1'' (Fin 5),
                        rec_of ''DEU'' ''Germany'' ''2020'' (Fin 100)])"
    by (simp add: net_gaps_def)
  from page_count_from_metadata[where ind = "(''X'', ''X.CODE'')" and w = fresh
         and net = net_two_pages and countries_dict = ex_countries
         and date_range = "(2000, 2024)" and to_numeric = to_numeric_digits, OF u n1]
       page_count_from_metadata[where ind = "(''B'', ''B.CODE'')" and w = fresh
         and net = net_gaps and countries_dict = ex_countries
         and date_range = "(2000, 2024)" and to_numeric = to_numeric_digits, OF u n2]
  show ?thesis by (simp add: net_two_pages_def)
qed

subsection \<open>The steps of the KPI computation\<close>

lemma iloc_last: "xs \<noteq> [] \<Longrightarrow> iloc xs (- 1) = Inr (last xs)"
  by (cases xs rule: rev_cases) (auto simp: iloc_def nth_append)

lemma iloc_first: "xs \<noteq> [] \<Longrightarrow> iloc xs 0 = Inr (hd xs)"
  by (cases xs) (auto simp: iloc_def)

lemma iloc_prev: "2 \<le> length xs \<Longrightarrow> iloc xs (- 2) = Inr (xs ! (length xs - 2))"
proof -
  assume a: "2 \<le> length xs"
  then have "nat (int (length xs) + - 2) = length xs - 2" by simp
  with a show ?thesis by (simp add: iloc_def)
qed

lemma sorted_last_greatest:
  "sorted (map f ys) \<Longrightarrow> y \<in> set ys \<Longrightarrow> f y \<le> f (last ys)"
proof (induction ys rule: rev_induct)
  case Nil
  then show ?case by simp
next
  case (snoc x xs)
  then show ?case by (auto simp: sorted_append)
qed

lemma sorted_hd_least:
  "sorted (map f ys) \<Longrightarrow> y \<in> set ys \<Longrightarrow> f (hd ys) \<le> f y"
  by (cases ys) auto

lemma last_sort_key_Max:
  assumes "xs \<noteq> []"
  shows "f (last (sort_key f xs)) = Max (f ` set xs)"
proof -
  have ne: "sort_key f xs \<noteq> []" using assms by (metis length_sort length_0_conv)
  have "f (last (sort_key f xs)) \<in> f ` set xs"
    using ne last_in_set[OF ne] by (metis imageI set_sort)
  moreover have "\<forall>y \<in> f ` set xs. y \<le> f (last (sort_key f xs))"
    using sorted_last_greatest[of f "sort_key f xs"] by auto
  ultimately show ?thesis by (intro Max_eqI[symmetric]) auto
qed

lemma hd_sort_key_Min:
  assumes "xs \<noteq> []"
  shows "f (hd (sort_key f xs)) = Min (f ` set xs)"
proof -
  have ne: "sort_key f xs \<noteq> []" using assms by (metis length_sort length_0_conv)
  have "f (hd (sort_key f xs)) \<in> f ` set xs"
    using ne hd_in_set[OF ne] by (metis imageI set_sort)
  moreover have "\<forall>y \<in> f ` set xs. f (hd (sort_key f xs)) \<le> y"
    using sorted_hd_least[of f "sort_key f xs"] by auto
  ultimately show ?thesis by (intro Min_eqI[symmetric]) auto
qed

lemma yoy_two:
  "2 \<le> length s \<Longrightarrow>
   yoy s lv = Inr (if Value (s ! (length s - 2)) \<noteq> Fin 0 \<and> notna (Value (s ! (length s - 2)))
                   then fmul (fdiv (fsub lv (Value (s ! (length s - 2))))
                                   (Value (s ! (length s - 2)))) (Fin 100)
                   else NaN,
                   fsub lv (Value (s ! (length s - 2))))"
  by (simp add: yoy_def iloc_prev bind_err_def Let_def)

lemma yoy_one: "\<not> 2 \<le> length s \<Longrightarrow> yoy s lv = Inr (NaN, NaN)"
  by (simp add: yoy_def)

lemma cagr_of_total:
  "1 \<le> n \<Longrightarrow>
   cagr_of lv fv n = Inr (if fv \<noteq> Fin 0 \<and> notna fv
                           then fmul (fsub (fpow (fdiv lv fv) (1 / of_int n)) (Fin 1)) (Fin 100)
                           else NaN)"
  by (simp add: cagr_of_def py_truediv_def bind_err_def)

lemma first_match_zip:
  assumes "\<exists>x \<in> set xs. P x"
  shows "\<exists>rest. filter (\<lambda>(k, r). P r) (zip [i..<i + length xs] xs)
           = (i + length (takeWhile (\<lambda>r. \<not> P r) xs),
              xs ! length (takeWhile (\<lambda>r. \<not> P r) xs)) # rest"
  using assms
proof (induction xs arbitrary: i)
  case Nil
  then show ?case by simp
next
  case (Cons x xs)
  have up: "[i..<i + length (x # xs)] = i # [Suc i..<Suc i + length xs]"
    by (subst upt_rec) simp
  show ?case
  proof (cases "P x")
    case True
    then show ?thesis unfolding up by simp
  next
    case False
    with Cons.prems have "\<exists>y \<in> set xs. P y" by simp
    from Cons.IH[OF this, of "Suc i"] False show ?thesis unfolding up by simp
  qed
qed

lemma no_match_zip:
  "\<not> (\<exists>x \<in> set xs. P x) \<Longrightarrow> filter (\<lambda>(k, r). P r) (zip ks xs) = []"
  by (auto simp: filter_empty_conv dest: set_zip_rightD)

lemma rank_of_total:
  "rank_of df_all indicator kpi_country ly =
     Inr (let cross = filter (\<lambda>r. notna (Value r))
                        (filter (\<lambda>r. Indicator r = indicator \<and> Year r = ly) df_all);
              sorted_rows = sort_key (\<lambda>r. desc_key (Value r)) cross
          in if cross = [] then (NA, Empty)
             else (if \<exists>r \<in> set cross. Country r = kpi_country
                   then RankText (Suc (length (takeWhile (\<lambda>r. Country r \<noteq> kpi_country)
                                                         sorted_rows)))
                                 (length cross)
                   else NA,
                   YearText ly))"
proof -
  define cross where "cross = filter (\<lambda>r. notna (Value r))
                        (filter (\<lambda>r. Indicator r = indicator \<and> Year r = ly) df_all)"
  define sorted_rows where "sorted_rows = sort_key (\<lambda>r. desc_key (Value r)) cross"
  define row where "row = filter (\<lambda>(k, r). Country r = kpi_country)
                            (zip [1..<Suc (length sorted_rows)] sorted_rows)"
  have unfold: "rank_of df_all indicator kpi_country ly =
      (if cross = [] then Inr (NA, Empty)
       else bind_err (if row \<noteq> []
                      then bind_err (iloc row 0) (\<lambda>(k, r). Inr (RankText k (length sorted_rows)))
                      else Inr NA)
              (\<lambda>rank_text. Inr (rank_text, YearText ly)))"
    unfolding rank_of_def cross_def sorted_rows_def row_def Let_def ..
  have len: "length sorted_rows = length cross" by (simp add: sorted_rows_def)
  have st: "set sorted_rows = set cross" by (simp add: sorted_rows_def)
  show ?thesis
  proof (cases "\<exists>r \<in> set cross. Country r = kpi_country")
    case True
    then have ne: "cross \<noteq> []" by auto
    from True st have "\<exists>x \<in> set sorted_rows. Country x = kpi_country" by simp
    from first_match_zip[OF this, of 1]
    obtain rest where "row = (1 + length (takeWhile (\<lambda>r. Country r \<noteq> kpi_country) sorted_rows),
              sorted_rows ! length (takeWhile (\<lambda>r. Country r \<noteq> kpi_country) sorted_rows)) # rest"
      by (auto simp: row_def)
    with True ne len show ?thesis
      unfolding unfold cross_def[symmetric] sorted_rows_def[symmetric] Let_def
      by (simp add: iloc_def bind_err_def)
  next
    case False
    with st have *: "\<not> (\<exists>x \<in> set sorted_rows. Country x = kpi_country)" by simp
    have "row = []" unfolding row_def by (rule no_match_zip[OF *])
    with False show ?thesis
      unfolding unfold cross_def[symmetric] sorted_rows_def[symmetric] Let_def
      by (simp add: bind_err_def)
  qed
qed

lemma yoy_Inr: "\<exists>var_pct var_abs. yoy s lv = Inr (var_pct, var_abs)"
  by (cases "2 \<le> length s") (simp_all add: yoy_two yoy_one)

lemma cagr_Inr: "\<exists>cagr. cagr_of lv fv (max 1 d) = Inr cagr"
proof -
  have "1 \<le> max 1 d" by simp
  from cagr_of_total[OF this] show ?thesis by blast
qed

lemma rank_Inr:
  "\<exists>rank_text top_text. rank_of df_all indicator kpi_country ly = Inr (rank_text, top_text)"
proof -
  obtain p where p: "rank_of df_all indicator kpi_country ly = Inr p"
    by (rule that[OF rank_of_total])
  obtain a b where "p = (a, b)" by (cases p)
  with p show ?thesis by blast
qed

lemma update_kpis_fields:
  assumes "selection df_all indicator kpi_country year_range \<noteq> []"
    and "s = sort_key Year (selection df_all indicator kpi_country year_range)"
    and "yoy s (Value (last s)) = Inr (var_pct, var_abs)"
    and "cagr_of (Value (last s)) (Value (hd s)) (max 1 (Year (last s) - Year (hd s)))
             = Inr cagr"
    and "rank_of df_all indicator kpi_country (Year (last s)) = Inr (rank_text, top_text)"
  shows "update_kpis df_all indicator kpi_country year_range =
             Inr [format_value indicator (Value (last s)),
                  YearText (Year (last s)),
                  (if notna var_pct then Percent var_pct else NA),
                  (if notna var_abs then Delta (format_value indicator var_abs) else Delta NA),
                  (if notna cagr then Percent cagr else NA),
                  RangeText (fst year_range) (snd year_range),
                  rank_text,
                  top_text]"
proof -
  have ne: "s \<noteq> []" using assms(1,2) by (metis length_sort length_0_conv)
  have sel: "filter (\<lambda>r. Indicator r = indicator \<and> Country r = kpi_country
                          \<and> between (fst year_range) (snd year_range) (Year r)) df_all
               = selection df_all indicator kpi_country year_range"
    by (simp add: selection_def)
  have srt: "sort_key Year (selection df_all indicator kpi_country year_range) = s"
    using assms(2) by simp
  show ?thesis
    unfolding update_kpis_def Let_def sel srt
    by (simp only: assms(1,3,4,5) if_False iloc_last[OF ne] iloc_first[OF ne] bind_err_def
          sum.case prod.case)
qed

subsection \<open>Year over year\<close>

lemma yoy_finite:
  assumes "2 \<le> length s" and "Value (s ! (length s - 2)) = pv"
  shows "yoy s (Fin l) =
     Inr (case pv of Fin p \<Rightarrow> if p = 0 then NaN else Fin ((l - p) / p * 100) | _ \<Rightarrow> NaN,
          case pv of Fin p \<Rightarrow> Fin (l - p) | NaN \<Rightarrow> NaN | PInf \<Rightarrow> NInf | NInf \<Rightarrow> PInf)"
  using assms by (cases pv) (simp_all add: yoy_two fsub_def notna_def inf_of_sign_def)




subsection \<open>Compound annual growth rate\<close>

text \<open>
  The exponent of line 294 is \<open>1 / n\<close> with \<open>1 \<le> n\<close>: it is an integer only when \<open>n = 1\<close>,
  so a negative ratio has a power only over a span of one year.
\<close>

lemma not_integer_inverse:
  fixes n :: int
  assumes "2 \<le> n"
  shows "\<not> is_integer (1 / of_int n)"
proof
  assume "is_integer (1 / of_int n)"
  then have eq: "1 / real_of_int n = of_int \<lfloor>1 / real_of_int n\<rfloor>" by (simp add: is_integer_def)
  from assms have "0 < 1 / real_of_int n" "1 / real_of_int n < 1" by simp_all
  then have "\<lfloor>1 / real_of_int n\<rfloor> = 0" by (simp add: floor_eq_iff)
  with eq have "1 / real_of_int n = 0" by simp
  with assms show False by simp
qed

lemma is_integer_one: "is_integer 1" "is_odd_integer 1"
  by (simp_all add: is_integer_def is_odd_integer_def)

lemma fpow_inverse:
  fixes n :: int
  assumes "1 \<le> n"
  shows "fpow (Fin x) (1 / of_int n) =
           (if 0 \<le> x then Fin (x powr (1 / of_int n))
            else if n = 1 then Fin x else NaN)"
proof -
  from assms have e: "0 < 1 / real_of_int n" by simp
  show ?thesis
  proof (cases "n = 1")
    case True
    then show ?thesis by (simp add: is_integer_one)
  next
    case False
    with assms have "2 \<le> n" by simp
    from not_integer_inverse[OF this] e False show ?thesis by auto
  qed
qed

lemma cagr_finite:
  fixes n :: int
  assumes "1 \<le> n"
  shows "cagr_of (Fin l) fv n =
     Inr (case fv of
            Fin f \<Rightarrow> if f = 0 then NaN
                     else if 0 \<le> l / f then Fin (((l / f) powr (1 / of_int n) - 1) * 100)
                     else if n = 1 then Fin ((l / f - 1) * 100)
                     else NaN
          | NaN \<Rightarrow> NaN
          | PInf \<Rightarrow> Fin (- 100)
          | NInf \<Rightarrow> Fin (- 100))"
proof (cases fv)
  case (Fin f)
  then show ?thesis
    using assms by (simp add: cagr_of_total fpow_inverse[OF assms] fsub_def notna_def
                      del: fpow.simps)
next
  case NaN
  then show ?thesis using assms by (simp add: cagr_of_total notna_def)
next
  case PInf
  then show ?thesis
    using assms by (simp add: cagr_of_total fpow_inverse[OF assms] fsub_def notna_def
                      del: fpow.simps)
next
  case NInf
  then show ?thesis
    using assms by (simp add: cagr_of_total fpow_inverse[OF assms] fsub_def notna_def
                      del: fpow.simps)
qed

text \<open>
  C4, as stated: the growth rate is unavailable whenever the first value is zero, missing
  or negative. Line 294 guards \<^verbatim>\<open>first_val != 0 and pd.notna(first_val)\<close> only, and a
  negative first value passes it. Below, Germany has -2 in 2020 and -8 in 2021: the ratio
  is 4, the span one year, and the fifth field is 300 percent.
\<close>

theorem cagr_of_negative_first_value:
  "update_kpis df_negative ''X'' ''Germany'' (2020, 2021)
     = Inr [Plain (Fin (- 8)), YearText 2021, Percent (Fin 300), Delta (Plain (Fin (- 6))),
            Percent (Fin 300), RangeText 2020 2021, RankText 1 1, YearText 2021]"
  by code_simp

text \<open>
  C4, amended. For a non-empty selection whose latest value is a number \<open>l\<close>, with \<open>fv\<close>
  the first value and \<open>n = max 1 (latest year - first year)\<close>: when \<open>fv\<close> is a number \<open>f\<close>
  other than zero and the ratio \<open>l / f\<close> is not negative, the fifth field is
  \<open>((l / f) powr (1 / n) - 1) * 100\<close>; when the ratio is negative it is \<open>(l / f - 1) * 100\<close>
  over a span of one year and unavailable over a longer one; when \<open>fv\<close> is zero or missing
  it is unavailable. (An infinite \<open>fv\<close> gives the ratio 0 and -100 percent.) A positive
  first value is the case \<open>0 < f\<close>, a negative one with a negative latest value has a
  ratio that is not negative and is computed too.
\<close>

theorem cagr_field:
  assumes "selection df_all indicator kpi_country year_range \<noteq> []"
    and "s = sort_key Year (selection df_all indicator kpi_country year_range)"
    and "Value (last s) = Fin l"
    and "Value (hd s) = fv"
    and "n = max 1 (Max (Year ` set (selection df_all indicator kpi_country year_range))
                    - Min (Year ` set (selection df_all indicator kpi_country year_range)))"
  shows "\<exists>fields. update_kpis df_all indicator kpi_country year_range = Inr fields
           \<and> length fields = 8
           \<and> fields ! 4 =
               (case fv of
                  Fin f \<Rightarrow>
                    if f = 0 then NA
                    else if 0 \<le> l / f
                         then Percent (Fin (((l / f) powr (1 / of_int n) - 1) * 100))
                    else if n = 1 then Percent (Fin ((l / f - 1) * 100))
                    else NA
                | NaN \<Rightarrow> NA
                | PInf \<Rightarrow> Percent (Fin (- 100))
                | NInf \<Rightarrow> Percent (Fin (- 100)))"
proof -
  have n: "n = max 1 (Year (last s) - Year (hd s))"
    using assms(1,2,5) by (simp add: last_sort_key_Max hd_sort_key_Min)
  have n1: "1 \<le> n" using n by simp
  obtain var_pct var_abs where y: "yoy s (Value (last s)) = Inr (var_pct, var_abs)"
    using yoy_Inr by blast
  obtain rank_text top_text where
    r: "rank_of df_all indicator kpi_country (Year (last s)) = Inr (rank_text, top_text)"
    using rank_Inr by blast
  have c: "cagr_of (Value (last s)) (Value (hd s)) (max 1 (Year (last s) - Year (hd s)))
     = Inr (case fv of
            Fin f \<Rightarrow> if f = 0 then NaN
                     else if 0 \<le> l / f then Fin (((l / f) powr (1 / of_int n) - 1) * 100)
                     else if n = 1 then Fin ((l / f - 1) * 100)
                     else NaN
          | NaN \<Rightarrow> NaN
          | PInf \<Rightarrow> Fin (- 100)
          | NInf \<Rightarrow> Fin (- 100))"
    using cagr_finite[OF n1, of l fv] assms(3,4) n by simp
  note u = update_kpis_fields[OF assms(1,2) y c r]
  show ?thesis
    by (cases fv) (simp_all add: u notna_def)
qed

text \<open>
  Germany 100 in 2020 and 110 in 2021: one year, 10 percent. Germany 100 in 2019 and 400
  in 2021: two years, the square root of 4 less one, in percent.
\<close>

theorem cagr_field_witness:
  "(\<exists>fields. update_kpis df_growth ''X'' ''Germany'' (2020, 2021) = Inr fields
       \<and> fields ! 4 = Percent (Fin 10))
   \<and> (\<exists>fields. update_kpis df_two_years ''X'' ''Germany'' (2019, 2021) = Inr fields
       \<and> fields ! 4 = Percent (Fin ((4 powr (1 / 2) - 1) * 100)))"
proof -
  have a1: "selection df_growth ''X'' ''Germany'' (2020, 2021) \<noteq> []" by code_simp
  have a3: "Value (last (sort_key Year (selection df_growth ''X'' ''Germany'' (2020, 2021))))
              = Fin 110" by code_simp
  have a4: "Value (hd (sort_key Year (selection df_growth ''X'' ''Germany'' (2020, 2021))))
              = Fin 100" by code_simp
  have a5: "1 = max 1 (Max (Year ` set (selection df_growth ''X'' ''Germany'' (2020, 2021)))
                       - Min (Year ` set (selection df_growth ''X'' ''Germany'' (2020, 2021))))"
    by code_simp
  have b1: "selection df_two_years ''X'' ''Germany'' (2019, 2021) \<noteq> []" by code_simp
  have b3: "Value (last (sort_key Year (selection df_two_years ''X'' ''Germany'' (2019, 2021))))
              = Fin 400" by code_simp
  have b4: "Value (hd (sort_key Year (selection df_two_years ''X'' ''Germany'' (2019, 2021))))
              = Fin 100" by code_simp
  have b5: "2 = max 1 (Max (Year ` set (selection df_two_years ''X'' ''Germany'' (2019, 2021)))
                       - Min (Year ` set (selection df_two_years ''X'' ''Germany''
                                            (2019, 2021))))"
    by code_simp
  from cagr_field[OF a1 refl a3 a4 a5] cagr_field[OF b1 refl b3 b4 b5]
  show ?thesis by auto
qed

subsection \<open>Rank\<close>

text \<open>
  The latest row of the selection is a row of the selected indicator and country at the
  latest year: when its value is not missing it is one of the ranked rows.
\<close>

lemma latest_row_in_cross:
  assumes ne: "selection df_all indicator kpi_country year_range \<noteq> []"
    and s: "s = sort_key Year (selection df_all indicator kpi_country year_range)"
    and v: "notna (Value (last s))"
  shows "last s \<in> set (filter (\<lambda>r. notna (Value r))
                        (filter (\<lambda>r. Indicator r = indicator \<and> Year r = Year (last s)) df_all))
         \<and> Country (last s) = kpi_country"
proof -
  have sne: "s \<noteq> []" using ne s by (metis length_sort length_0_conv)
  have "last s \<in> set s" using sne by simp
  then have "last s \<in> set (selection df_all indicator kpi_country year_range)"
    using s by simp
  then show ?thesis using v by (simp add: selection_def)
qed




subsection \<open>The eight fields\<close>

text \<open>
  An empty selection gives eight times \<^verbatim>\<open>'N/A'\<close> (line 278). Otherwise every number is
  tested with \<^verbatim>\<open>pd.isna\<close> or \<^verbatim>\<open>pd.notna\<close> before it is shown (lines 109 and 308-310),
  and these tests let an infinity through.
\<close>

lemma update_kpis_empty:
  assumes "selection df_all indicator kpi_country year_range = []"
  shows "update_kpis df_all indicator kpi_country year_range = Inr (replicate 8 NA)"
proof -
  have sel: "filter (\<lambda>r. Indicator r = indicator \<and> Country r = kpi_country
                          \<and> between (fst year_range) (snd year_range) (Year r)) df_all
               = selection df_all indicator kpi_country year_range"
    by (simp add: selection_def)
  show ?thesis
    unfolding update_kpis_def Let_def sel
    by (simp only: assms refl if_True)
qed

lemma is_finite_iff: "is_finite v = (\<exists>x. v = Fin x)"
  by (cases v) auto

lemma format_value_no_nan: "shows_no_nan (format_value i v)"
  by (simp add: format_value_def isna_def notna_def)

lemma format_value_finite: "is_finite v \<or> v = NaN \<Longrightarrow> finite_or_na (format_value i v)"
  by (auto simp: format_value_def isna_def)

lemma rank_of_shape:
  assumes "rank_of df_all indicator kpi_country ly = Inr (a, b)"
  shows "(a = NA \<or> (\<exists>k n. a = RankText k n))
         \<and> (if filter (\<lambda>r. notna (Value r))
                 (filter (\<lambda>r. Indicator r = indicator \<and> Year r = ly) df_all) = []
             then b = Empty else b = YearText ly)"
  using assms unfolding rank_of_total Let_def
  by (auto split: if_splits)

lemma yoy_finite_or_nan:
  assumes "\<forall>r \<in> set s. is_finite (Value r)" and "yoy s (Fin l) = Inr (vp, va)"
  shows "(is_finite vp \<or> vp = NaN) \<and> (is_finite va \<or> va = NaN)"
proof (cases "2 \<le> length s")
  case True
  then have "s ! (length s - 2) \<in> set s" by simp
  with assms(1) obtain p where p: "Value (s ! (length s - 2)) = Fin p"
    by (auto simp: is_finite_iff)
  from yoy_finite[OF True p, of l] assms(2) show ?thesis by auto
next
  case False
  from yoy_one[OF this, of "Fin l"] assms(2) show ?thesis by simp
qed

lemma cagr_finite_or_nan:
  assumes "1 \<le> n" and "cagr_of (Fin l) (Fin f) n = Inr c"
  shows "is_finite c \<or> c = NaN"
  using cagr_finite[OF assms(1), of l "Fin f"] assms(2) by (auto split: if_splits)

text \<open>
  C3, as stated: whenever a row matches, every field is a finite number, never NaN or
  Infinity, or the marker for an unavailable one. The build keeps a record whose value is
  infinite (\<^verbatim>\<open>dropna\<close> drops missing values only), and \<^verbatim>\<open>format_value\<close> tests
  \<^verbatim>\<open>pd.isna\<close> only. Below, the dataset is built from a page whose one record has an
  infinite value: the first field shows that infinity.
\<close>

theorem kpis_show_infinity:
  "update_kpis
     (rows (fst (get_worldbank_data net_infinite to_numeric_digits ex_countries
                   [(''X'', ''X.CODE'')] 2000 2024 fresh)))
     ''X'' ''Germany'' (2000, 2024)
     = Inr [Plain PInf, YearText 2020, NA, Delta NA, NA, RangeText 2000 2024, RankText 1 1,
            YearText 2020]"
  by code_simp

text \<open>
  C3, amended. For every dataset, indicator, country and year range the computation
  returns, without raising, eight fields of which none shows NaN: a number that is
  missing is replaced by the marker for an unavailable one (the eighth field is the empty
  text when no row of the latest year has a value). When every value of the selection is
  a finite number, every field is a finite number, a text of finite integers or that
  marker. The arithmetic on finite values is exact here: the overflow of binary64 to an
  infinity is outside this statement.
\<close>

theorem kpis_total_and_shown:
  "\<exists>fields. update_kpis df_all indicator kpi_country year_range = Inr fields
      \<and> length fields = 8
      \<and> list_all shows_no_nan fields
      \<and> ((\<forall>r \<in> set (selection df_all indicator kpi_country year_range). is_finite (Value r))
           \<longrightarrow> list_all finite_or_na fields)"
proof (cases "selection df_all indicator kpi_country year_range = []")
  case True
  show ?thesis by (simp add: update_kpis_empty[OF True] list_all_iff)
next
  case False
  define s where "s = sort_key Year (selection df_all indicator kpi_country year_range)"
  have sne: "s \<noteq> []" using False by (metis s_def length_sort length_0_conv)
  have sset: "set s = set (selection df_all indicator kpi_country year_range)"
    by (simp add: s_def)
  obtain var_pct var_abs where y: "yoy s (Value (last s)) = Inr (var_pct, var_abs)"
    using yoy_Inr by blast
  obtain cagr where c: "cagr_of (Value (last s)) (Value (hd s))
                          (max 1 (Year (last s) - Year (hd s))) = Inr cagr"
    using cagr_Inr by blast
  obtain rank_text top_text where
    r: "rank_of df_all indicator kpi_country (Year (last s)) = Inr (rank_text, top_text)"
    using rank_Inr by blast
  note u = update_kpis_fields[OF False s_def y c r]
  note shape = rank_of_shape[OF r]
  have rk: "shows_no_nan rank_text" "finite_or_na rank_text" "shows_no_nan top_text"
    using shape by (auto split: if_splits)
  have nonan: "list_all shows_no_nan
                 [format_value indicator (Value (last s)), YearText (Year (last s)),
                  (if notna var_pct then Percent var_pct else NA),
                  (if notna var_abs then Delta (format_value indicator var_abs) else Delta NA),
                  (if notna cagr then Percent cagr else NA),
                  RangeText (fst year_range) (snd year_range), rank_text, top_text]"
    using rk by (simp add: format_value_no_nan)
  have fin: "list_all finite_or_na
                 [format_value indicator (Value (last s)), YearText (Year (last s)),
                  (if notna var_pct then Percent var_pct else NA),
                  (if notna var_abs then Delta (format_value indicator var_abs) else Delta NA),
                  (if notna cagr then Percent cagr else NA),
                  RangeText (fst year_range) (snd year_range), rank_text, top_text]"
    if all: "\<forall>r \<in> set (selection df_all indicator kpi_country year_range). is_finite (Value r)"
  proof -
    from all sset have alls: "\<forall>r \<in> set s. is_finite (Value r)" by simp
    have "is_finite (Value (last s))" using alls last_in_set[OF sne] by blast
    then obtain l where l: "Value (last s) = Fin l" by (auto simp: is_finite_iff)
    have "is_finite (Value (hd s))" using alls hd_in_set[OF sne] by blast
    then obtain f where f: "Value (hd s) = Fin f" by (auto simp: is_finite_iff)
    from y l have y': "yoy s (Fin l) = Inr (var_pct, var_abs)" by simp
    note yf = yoy_finite_or_nan[OF alls y']
    have "1 \<le> max 1 (Year (last s) - Year (hd s))" by simp
    from cagr_finite_or_nan[OF this] c l f have cf: "is_finite cagr \<or> cagr = NaN" by simp
    have "notna (Value (last s))" using l by (simp add: notna_def)
    from latest_row_in_cross[OF False s_def this]
    have "last s \<in> set (filter (\<lambda>r. notna (Value r))
            (filter (\<lambda>r. Indicator r = indicator \<and> Year r = Year (last s)) df_all))"
      by (rule conjunct1)
    then have "filter (\<lambda>r. notna (Value r))
            (filter (\<lambda>r. Indicator r = indicator \<and> Year r = Year (last s)) df_all) \<noteq> []"
      by (metis empty_iff empty_set)
    with shape have top: "top_text = YearText (Year (last s))" by simp
    have v0: "finite_or_na (format_value indicator (Value (last s)))"
      using l by (simp add: format_value_finite)
    have v2: "finite_or_na (if notna var_pct then Percent var_pct else NA)"
      using yf by (auto simp: notna_def)
    have v3: "finite_or_na (if notna var_abs then Delta (format_value indicator var_abs)
                            else Delta NA)"
      using yf by (auto simp: notna_def format_value_finite)
    have v4: "finite_or_na (if notna cagr then Percent cagr else NA)"
      using cf by (auto simp: notna_def)
    show ?thesis
      using v0 v2 v3 v4 rk(2) top by simp
  qed
  show ?thesis
    unfolding u using nonan fin by simp
qed

text \<open>
  Germany 70 in 2020 and 110 in 2021 among the rows of France and Spain: eight fields,
  all finite.
\<close>

theorem kpis_total_and_shown_witness:
  "\<exists>fields. update_kpis df_rank ''X'' ''Germany'' (2020, 2021) = Inr fields
      \<and> length fields = 8 \<and> list_all shows_no_nan fields \<and> list_all finite_or_na fields"
proof -
  have a: "list_all (\<lambda>r. is_finite (Value r)) (selection df_rank ''X'' ''Germany'' (2020, 2021))"
    by code_simp
  from kpis_total_and_shown[of df_rank "''X''" "''Germany''" "(2020, 2021)"] a
  show ?thesis by (auto simp: list_all_iff)
qed

end
